theory Spec2Isabelle
  imports Complex_Main "HOL-Library.Multiset"
begin

section \<open>JavaScript strings\<close>

text \<open>
  A JavaScript string is modelled as a \<^typ>\<open>string\<close>: the list of its code units, each
  below 256 (the Latin-1 range). The character classes below are the ones of the
  regular expressions and string methods of the server source, restricted to that range:
  \<^verbatim>\<open>\s\<close> and \<^verbatim>\<open>trim\<close> see TAB, LF, VT, FF, CR, SPACE and NBSP;
  \<^verbatim>\<open>\w\<close> is \<^verbatim>\<open>[A-Za-z0-9_]\<close>.
\<close>

definition isSpaceJS :: "char \<Rightarrow> bool" where
  "isSpaceJS c = (let n = (of_char c :: nat) in (9 \<le> n \<and> n \<le> 13) \<or> n = 32 \<or> n = 160)"

definition isUpperAZ :: "char \<Rightarrow> bool" where
  "isUpperAZ c = (let n = (of_char c :: nat) in 65 \<le> n \<and> n \<le> 90)"

definition isLowerAZ :: "char \<Rightarrow> bool" where
  "isLowerAZ c = (let n = (of_char c :: nat) in 97 \<le> n \<and> n \<le> 122)"

definition isDigit :: "char \<Rightarrow> bool" where
  "isDigit c = (let n = (of_char c :: nat) in 48 \<le> n \<and> n \<le> 57)"

definition isWordChar :: "char \<Rightarrow> bool" where
  "isWordChar c = (isUpperAZ c \<or> isLowerAZ c \<or> isDigit c \<or> c = CHR ''_'')"

definition isSentenceEnd :: "char \<Rightarrow> bool" where
  "isSentenceEnd c = (c = CHR ''.'' \<or> c = CHR ''!'' \<or> c = CHR ''?'')"

text \<open>
  \<^verbatim>\<open>s.split(/[class]+/)\<close>: the pieces between the maximal runs of characters of the
  class. A run at the start or at the end of the string gives an empty first or last
  piece, and the empty string gives the one piece \<^verbatim>\<open>""\<close>.
\<close>

function splitRuns :: "(char \<Rightarrow> bool) \<Rightarrow> string \<Rightarrow> string list" where
  "splitRuns P [] = [[]]"
| "splitRuns P (c # cs) =
     (if P c then [] # splitRuns P (dropWhile P cs)
      else (case splitRuns P cs of
              [] \<Rightarrow> [[c]]
            | w # ws \<Rightarrow> (c # w) # ws))"
  by pat_completeness auto
termination
  by (relation "measure (\<lambda>(P, s). length s)")
     (auto simp: less_Suc_eq_le length_dropWhile_le)

text \<open>\<^verbatim>\<open>s.split(' ')\<close>: the pieces between every single occurrence of the character.\<close>

fun splitChar :: "char \<Rightarrow> string \<Rightarrow> string list" where
  "splitChar d [] = [[]]"
| "splitChar d (c # cs) =
     (if c = d then [] # splitChar d cs
      else (case splitChar d cs of
              [] \<Rightarrow> [[c]]
            | w # ws \<Rightarrow> (c # w) # ws))"

definition trim :: "string \<Rightarrow> string" where
  "trim s = rev (dropWhile isSpaceJS (rev (dropWhile isSpaceJS s)))"

text \<open>\<^verbatim>\<open>s.replace(/[^\w]/g, '')\<close>\<close>

definition stripNonWord :: "string \<Rightarrow> string" where
  "stripNonWord s = filter isWordChar s"

text \<open>
  \<^verbatim>\<open>toLowerCase\<close> on Latin-1 code units: A-Z and the accented capitals
  (192-222 without the multiplication sign 215) move up by 32.
\<close>

definition lowerChar :: "char \<Rightarrow> char" where
  "lowerChar c =
     (let n = (of_char c :: nat)
      in if (65 \<le> n \<and> n \<le> 90) \<or> (192 \<le> n \<and> n \<le> 222 \<and> n \<noteq> 215)
         then char_of (n + 32) else c)"

definition toLowerCase :: "string \<Rightarrow> string" where
  "toLowerCase s = map lowerChar s"

text \<open>\<^verbatim>\<open>s.includes(t)\<close>: \<open>t\<close> occurs in \<open>s\<close> as a contiguous substring.\<close>

fun includesJS :: "string \<Rightarrow> string \<Rightarrow> bool" where
  "includesJS [] t = (t = [])"
| "includesJS (c # cs) t = (take (length t) (c # cs) = t \<or> includesJS cs t)"

text \<open>
  \<^verbatim>\<open>s.replace(pat, rep)\<close> with a string pattern: only the first occurrence of
  \<open>pat\<close> is replaced (an empty pattern matches at position 0); without an occurrence
  the string is returned unchanged. The replacement text of the source has no \<^verbatim>\<open>$\<close>.
\<close>

fun replaceFirst :: "string \<Rightarrow> string \<Rightarrow> string \<Rightarrow> string" where
  "replaceFirst pat rep [] = (if pat = [] then rep else [])"
| "replaceFirst pat rep (c # cs) =
     (if take (length pat) (c # cs) = pat then rep @ drop (length pat) (c # cs)
      else c # replaceFirst pat rep cs)"

text \<open>The decimal text of a number, as a template literal prints it.\<close>

fun showNat :: "nat \<Rightarrow> string" where
  "showNat n =
     (if n < 10 then [char_of (48 + n)]
      else showNat (n div 10) @ [char_of (48 + n mod 10)])"

declare showNat.simps [simp del]

section \<open>Sizing estimator\<close>

text \<open>
  \<^verbatim>\<open>
  function calculateQuestionCount(notes: string) {
    const wordCount = notes.split(/\s+/).length;
    const sentenceCount = notes.split(/[.!?]+/).filter(s => s.trim().length > 10).length;
    if (wordCount < 100) return Math.min(5, sentenceCount);
    if (wordCount < 300) return Math.min(10, Math.floor(sentenceCount * 0.7));
    if (wordCount < 600) return Math.min(20, Math.floor(sentenceCount * 0.5));
    return Math.min(30, Math.floor(sentenceCount * 0.4));
  }
  \<close>
  The products are written in integer arithmetic: \<open>\<lfloor>n \<times> 0.7\<rfloor>\<close> is \<open>7 n div 10\<close>.
  The double-precision product agrees with it wherever the minimum does not cap the
  result: for a multiple of ten (of five, of two) the product rounds to the exact
  integer, and otherwise its fractional part is at least one tenth.
\<close>

definition wordCount :: "string \<Rightarrow> nat" where
  "wordCount notes = length (splitRuns isSpaceJS notes)"

definition sentencesOf :: "string \<Rightarrow> string list" where
  "sentencesOf notes = filter (\<lambda>s. length (trim s) > 10) (splitRuns isSentenceEnd notes)"

definition sentenceCount :: "string \<Rightarrow> nat" where
  "sentenceCount notes = length (sentencesOf notes)"

definition calculateQuestionCount :: "string \<Rightarrow> int" where
  "calculateQuestionCount notes =
     (let wc = wordCount notes; sc = int (sentenceCount notes)
      in if wc < 100 then min 5 sc
         else if wc < 300 then min 10 (sc * 7 div 10)
         else if wc < 600 then min 20 (sc * 5 div 10)
         else min 30 (sc * 4 div 10))"




section \<open>Flashcards\<close>

text \<open>
  A flashcard as the generators build it. The source writes \<open>difficulty\<close> and \<open>type\<close>
  as the strings \<^verbatim>\<open>basic\<close>, \<^verbatim>\<open>intermediate\<close>, \<^verbatim>\<open>advanced\<close> and
  \<^verbatim>\<open>ai_generated\<close>, \<^verbatim>\<open>fill_blank\<close>, \<^verbatim>\<open>definition\<close>, \<^verbatim>\<open>true_false\<close>,
  \<^verbatim>\<open>multiple_choice\<close>.
\<close>

datatype difficulty = Basic | Intermediate | Advanced

datatype card_type = AiGenerated | FillBlank | Definition | TrueFalse | MultipleChoice

record flashcard =
  card_id :: string
  question :: string
  answer :: string
  difficulty :: difficulty
  card_type :: card_type

definition cardId :: "nat \<Rightarrow> nat \<Rightarrow> string \<Rightarrow> string" where
  \<comment> \<open>\<^verbatim>\<open>`card_${Date.now()}_${index}_${suffix}`\<close>\<close>
  "cardId now index suffix = ''card_'' @ showNat now @ ''_'' @ showNat index @ ''_'' @ suffix"

section \<open>Key-term extractor\<close>

text \<open>
  \<^verbatim>\<open>
  function extractKeyTerms(text: string) {
    const words = text.split(/\s+/);
    const termFreq = {};
    const keyTerms = [];
    words.forEach(word => {
      const cleaned = word.replace(/[^\w]/g, '').toLowerCase();
      if (cleaned.length > 3) {
        termFreq[cleaned] = (termFreq[cleaned] || 0) + 1;
      }
      if (word.match(/^[A-Z][a-z]+/) && word.length > 3) {
        keyTerms.push(word.replace(/[^\w]/g, ''));
      }
    });
    Object.entries(termFreq).forEach(([term, freq]) => {
      if (freq > 1 && term.length > 4) {
        keyTerms.push(term);
      }
    });
    return [...new Set(keyTerms)].slice(0, 20);
  }
  \<close>
  \<open>termFreq\<close> is a plain object, which the model keeps as an association list in
  insertion order. Two facts of the language are written out:
  \<^item> \<^verbatim>\<open>Object.entries\<close> lists the keys that are array indices (canonical decimal
    numbers below \<open>2\<^sup>3\<^sup>2 - 1\<close>) first, in ascending numeric order, and the other keys
    after them in insertion order;
  \<^item> the key \<^verbatim>\<open>constructor\<close> is inherited from the prototype, so its count starts
    from a function, becomes a string by concatenation, and never compares above 1.
    (The runtime of the source, Deno, has no \<^verbatim>\<open>__proto__\<close> accessor, so that key
    counts as any other.)
\<close>

fun bumpFreq :: "(string \<times> nat) list \<Rightarrow> string \<Rightarrow> (string \<times> nat) list" where
  "bumpFreq [] k = [(k, 1)]"
| "bumpFreq ((k', n) # kvs) k =
     (if k' = k then (k', n + 1) # kvs else (k', n) # bumpFreq kvs k)"

definition countWord :: "(string \<times> nat) list \<Rightarrow> string \<Rightarrow> (string \<times> nat) list" where
  "countWord termFreq word =
     (let cleaned = toLowerCase (stripNonWord word)
      in if length cleaned > 3 then bumpFreq termFreq cleaned else termFreq)"

definition isCapitalized :: "string \<Rightarrow> bool" where
  \<comment> \<open>\<^verbatim>\<open>word.match(/^[A-Z][a-z]+/)\<close>\<close>
  "isCapitalized word =
     (case word of c1 # c2 # _ \<Rightarrow> isUpperAZ c1 \<and> isLowerAZ c2 | _ \<Rightarrow> False)"

fun digitsLess :: "string \<Rightarrow> string \<Rightarrow> bool" where
  "digitsLess (a # as) (b # bs) =
     ((of_char a :: nat) < of_char b \<or> (a = b \<and> digitsLess as bs))"
| "digitsLess _ _ = False"

definition decimalLess :: "string \<Rightarrow> string \<Rightarrow> bool" where
  \<comment> \<open>the numeric order of two decimal numbers written without leading zeros\<close>
  "decimalLess a b = (length a < length b \<or> (length a = length b \<and> digitsLess a b))"

definition isArrayIndex :: "string \<Rightarrow> bool" where
  "isArrayIndex s =
     (if s \<noteq> [] \<and> list_all isDigit s
      then (s = ''0'' \<or> hd s \<noteq> CHR ''0'') \<and> decimalLess s ''4294967295''
      else False)"

fun insertEntry :: "string \<times> nat \<Rightarrow> (string \<times> nat) list \<Rightarrow> (string \<times> nat) list" where
  "insertEntry e [] = [e]"
| "insertEntry e (x # xs) =
     (if decimalLess (fst e) (fst x) then e # x # xs else x # insertEntry e xs)"

definition objectEntries :: "(string \<times> nat) list \<Rightarrow> (string \<times> nat) list" where
  "objectEntries termFreq =
     foldr insertEntry (filter (\<lambda>kv. isArrayIndex (fst kv)) termFreq) []
     @ filter (\<lambda>kv. \<not> isArrayIndex (fst kv)) termFreq"

definition uniqueFirst :: "string list \<Rightarrow> string list" where
  \<comment> \<open>\<^verbatim>\<open>[...new Set(xs)]\<close>: every value once, at its first position\<close>
  "uniqueFirst xs = rev (remdups (rev xs))"

definition extractKeyTerms :: "string \<Rightarrow> string list" where
  "extractKeyTerms text =
     (let words = splitRuns isSpaceJS text;
          termFreq = foldl countWord [] words;
          capitalized = map stripNonWord (filter (\<lambda>w. isCapitalized w \<and> length w > 3) words);
          frequent = map fst (filter (\<lambda>(term, freq). freq > 1 \<and> length term > 4
                                          \<and> term \<noteq> ''constructor'')
                                     (objectEntries termFreq))
      in take 20 (uniqueFirst (capitalized @ frequent)))"

section \<open>Heuristic card builders\<close>

text \<open>
  Each builder takes the value \<open>now\<close> that \<^verbatim>\<open>Date.now()\<close> returns when the card is
  made; a card that is not built (\<^verbatim>\<open>null\<close>) is \<^const>\<open>None\<close>.
  \<^verbatim>\<open>
  function generateFillInBlankCard(sentences: string[], index: number) {
    if (sentences.length === 0) return null;
    const sentence = sentences[index % sentences.length].trim();
    const words = sentence.split(' ');
    if (words.length > 5) {
      const keyWordIndex = Math.floor(words.length / 2);
      const keyWord = words[keyWordIndex].replace(/[^\w]/g, '');
      const question = sentence.replace(words[keyWordIndex], '______');
      return { id: `card_${Date.now()}_${index}_fill`,
               question: `Fill in the blank: ${question}`, answer: keyWord,
               difficulty: 'basic', type: 'fill_blank' };
    }
    return null;
  }
  \<close>
\<close>

definition generateFillInBlankCard :: "string list \<Rightarrow> nat \<Rightarrow> nat \<Rightarrow> flashcard option" where
  "generateFillInBlankCard sentences index now =
     (if length sentences = 0 then None
      else
        let sentence = trim (sentences ! (index mod length sentences));
            words = splitChar CHR '' '' sentence
        in if length words > 5 then
             let keyWordIndex = length words div 2;
                 keyWord = stripNonWord (words ! keyWordIndex);
                 question = replaceFirst (words ! keyWordIndex) ''______'' sentence
             in Some \<lparr>card_id = cardId now index ''fill'',
                      question = ''Fill in the blank: '' @ question,
                      answer = keyWord,
                      difficulty = Basic,
                      card_type = FillBlank\<rparr>
           else None)"

text \<open>
  \<^verbatim>\<open>
  function generateDefinitionCard(keyTerms: string[], sentences: string[], index: number) {
    if (keyTerms.length === 0) return null;
    const term = keyTerms[index % keyTerms.length];
    const relevantSentence = sentences.find(s => s.toLowerCase().includes(term.toLowerCase()));
    if (relevantSentence) {
      return { id: `card_${Date.now()}_${index}_def`, question: `What is ${term}?`,
               answer: relevantSentence.trim(), difficulty: 'intermediate', type: 'definition' };
    }
    return null;
  }
  \<close>
  \<^verbatim>\<open>if (relevantSentence)\<close> is false for \<^verbatim>\<open>undefined\<close> and for the empty string.
\<close>

definition findSentence :: "string list \<Rightarrow> string \<Rightarrow> string option" where
  "findSentence sentences term =
     (case find (\<lambda>s. includesJS (toLowerCase s) (toLowerCase term)) sentences of
        None \<Rightarrow> None
      | Some s \<Rightarrow> if s = [] then None else Some s)"

definition generateDefinitionCard ::
  "string list \<Rightarrow> string list \<Rightarrow> nat \<Rightarrow> nat \<Rightarrow> flashcard option" where
  "generateDefinitionCard keyTerms sentences index now =
     (if length keyTerms = 0 then None
      else
        let term = keyTerms ! (index mod length keyTerms)
        in case findSentence sentences term of
             Some relevantSentence \<Rightarrow>
               Some \<lparr>card_id = cardId now index ''def'',
                     question = ''What is '' @ term @ ''?'',
                     answer = trim relevantSentence,
                     difficulty = Intermediate,
                     card_type = Definition\<rparr>
           | None \<Rightarrow> None)"

text \<open>
  \<^verbatim>\<open>
  function generateTrueFalseCard(sentences: string[], index: number) {
    if (sentences.length === 0) return null;
    const sentence = sentences[index % sentences.length].trim();
    return { id: `card_${Date.now()}_${index}_tf`, question: `True or False: ${sentence}`,
             answer: 'True', difficulty: 'basic', type: 'true_false' };
  }
  \<close>
\<close>

definition generateTrueFalseCard :: "string list \<Rightarrow> nat \<Rightarrow> nat \<Rightarrow> flashcard option" where
  "generateTrueFalseCard sentences index now =
     (if length sentences = 0 then None
      else
        let sentence = trim (sentences ! (index mod length sentences))
        in Some \<lparr>card_id = cardId now index ''tf'',
                 question = ''True or False: '' @ sentence,
                 answer = ''True'',
                 difficulty = Basic,
                 card_type = TrueFalse\<rparr>)"

text \<open>
  \<^verbatim>\<open>
  function generateMultipleChoiceCard(sentences: string[], keyTerms: string[], index: number) {
    if (keyTerms.length === 0 || sentences.length === 0) return null;
    const term = keyTerms[index % keyTerms.length];
    const relevantSentence = sentences.find(s => s.toLowerCase().includes(term.toLowerCase()));
    if (relevantSentence) {
      const otherTerms = keyTerms.filter(t => t !== term).slice(0, 3);
      const choices = [term, ...otherTerms].sort(() => Math.random() - 0.5);
      return {
        id: `card_${Date.now()}_${index}_mc`,
        question: `Which term is described by: "${relevantSentence}"?\nA) ${choices[0]}\nB) ${choices[1]}\nC) ${choices[2]}\nD) ${choices[3] || 'None of the above'}`,
        answer: `${String.fromCharCode(65 + choices.indexOf(term))}) ${term}`,
        difficulty: 'advanced', type: 'multiple_choice' };
    }
    return null;
  }
  \<close>
  The random sort is the parameter \<open>shuffle\<close>: the theorems quantify over it, asking only
  that it returns a permutation of its argument. A template literal prints a missing
  array element as \<^verbatim>\<open>undefined\<close>; \<^verbatim>\<open>x || y\<close> takes \<open>y\<close> when \<open>x\<close> is
  missing or the empty string; \<^verbatim>\<open>indexOf\<close> is -1 for an absent value.
\<close>

fun indexOf :: "string list \<Rightarrow> string \<Rightarrow> int" where
  "indexOf [] x = - 1"
| "indexOf (y # ys) x =
     (if y = x then 0 else (let r = indexOf ys x in if r < 0 then - 1 else r + 1))"

definition printElem :: "string list \<Rightarrow> nat \<Rightarrow> string" where
  \<comment> \<open>\<^verbatim>\<open>`${choices[i]}`\<close>\<close>
  "printElem choices i = (if i < length choices then choices ! i else ''undefined'')"

definition elemOr :: "string list \<Rightarrow> nat \<Rightarrow> string \<Rightarrow> string" where
  \<comment> \<open>\<^verbatim>\<open>`${choices[i] || dflt}`\<close>\<close>
  "elemOr choices i dflt = (if i < length choices \<and> choices ! i \<noteq> [] then choices ! i else dflt)"

definition shownOptions :: "string list \<Rightarrow> string list" where
  \<comment> \<open>the texts printed after \<^verbatim>\<open>A)\<close>, \<^verbatim>\<open>B)\<close>, \<^verbatim>\<open>C)\<close> and \<^verbatim>\<open>D)\<close>\<close>
  "shownOptions choices =
     [printElem choices 0, printElem choices 1, printElem choices 2,
      elemOr choices 3 ''None of the above'']"

definition mcQuestion :: "string \<Rightarrow> string list \<Rightarrow> string" where
  "mcQuestion relevantSentence options =
     ''Which term is described by: '' @ [CHR 0x22] @ relevantSentence @ [CHR 0x22] @ ''?''
     @ [CHR 0x0A] @ ''A) '' @ options ! 0
     @ [CHR 0x0A] @ ''B) '' @ options ! 1
     @ [CHR 0x0A] @ ''C) '' @ options ! 2
     @ [CHR 0x0A] @ ''D) '' @ options ! 3"

definition fromCharCode :: "int \<Rightarrow> char" where
  "fromCharCode n = char_of (nat (n mod 65536))"

definition generateMultipleChoiceCard ::
  "(string list \<Rightarrow> string list) \<Rightarrow> string list \<Rightarrow> string list \<Rightarrow> nat \<Rightarrow> nat
     \<Rightarrow> flashcard option" where
  "generateMultipleChoiceCard shuffle sentences keyTerms index now =
     (if length keyTerms = 0 \<or> length sentences = 0 then None
      else
        let term = keyTerms ! (index mod length keyTerms)
        in case findSentence sentences term of
             Some relevantSentence \<Rightarrow>
               let otherTerms = take 3 (filter (\<lambda>t. t \<noteq> term) keyTerms);
                   choices = shuffle (term # otherTerms)
               in Some \<lparr>card_id = cardId now index ''mc'',
                        question = mcQuestion relevantSentence (shownOptions choices),
                        answer = fromCharCode (65 + indexOf choices term) # '') '' @ term,
                        difficulty = Advanced,
                        card_type = MultipleChoice\<rparr>
           | None \<Rightarrow> None)"

section \<open>Heuristic generation coordinator\<close>

text \<open>
  \<^verbatim>\<open>
  function generateAdvancedFlashcards(notes: string, targetCount: number) {
    const sentences = notes.split(/[.!?]+/).filter(s => s.trim().length > 10);
    const words = notes.split(/\s+/);
    const flashcards = [];
    const keyTerms = extractKeyTerms(notes);
    let cardCount = 0;
    const questionTypes = [
      { type: 'fill_blank', weight: 0.3 }, { type: 'definition', weight: 0.3 },
      { type: 'true_false', weight: 0.2 }, { type: 'multiple_choice', weight: 0.2 } ];
    for (const questionType of questionTypes) {
      const typeCount = Math.ceil(targetCount * questionType.weight);
      for (let i = 0; i < typeCount && cardCount < targetCount; i++) {
        let card = null;
        switch (questionType.type) { ... card = generate...Card(..., cardCount); ... }
        if (card) { flashcards.push(card); cardCount++; }
      }
    }
    return flashcards.slice(0, targetCount);
  }
  \<close>
  The target is a natural number: both callers pass a count that is not negative. A
  weight is kept in tenths, and \<open>\<lceil>target \<times> weight\<rceil>\<close> is computed on integers, which
  is what the double-precision product gives at the targets the program passes (at most
  30): a product that is an integer is computed exactly, and any other product is at
  least one tenth away from an integer. The
  builder for cursor \<open>i\<close> reads the clock value \<open>clock i\<close> and, for a multiple-choice
  card, the permutation \<open>shuffle i\<close>: a cursor value is used for at most one card, so
  every behaviour of \<^verbatim>\<open>Date.now()\<close> and \<^verbatim>\<open>Math.random()\<close> in one run is covered.
\<close>

definition questionTypes :: "(card_type \<times> nat) list" where
  "questionTypes = [(FillBlank, 3), (Definition, 3), (TrueFalse, 2), (MultipleChoice, 2)]"

definition typeCount :: "nat \<Rightarrow> nat \<Rightarrow> nat" where
  \<comment> \<open>\<^verbatim>\<open>Math.ceil(targetCount * weight)\<close>, the weight in tenths\<close>
  "typeCount targetCount weight = (targetCount * weight + 9) div 10"

definition buildCard ::
  "(nat \<Rightarrow> nat) \<Rightarrow> (nat \<Rightarrow> string list \<Rightarrow> string list) \<Rightarrow> string list \<Rightarrow> string list
     \<Rightarrow> card_type \<Rightarrow> nat \<Rightarrow> flashcard option" where
  "buildCard clock shuffle sentences keyTerms t cardCount =
     (case t of
        FillBlank \<Rightarrow> generateFillInBlankCard sentences cardCount (clock cardCount)
      | Definition \<Rightarrow> generateDefinitionCard keyTerms sentences cardCount (clock cardCount)
      | TrueFalse \<Rightarrow> generateTrueFalseCard sentences cardCount (clock cardCount)
      | MultipleChoice \<Rightarrow>
          generateMultipleChoiceCard (shuffle cardCount) sentences keyTerms cardCount
            (clock cardCount)
      | AiGenerated \<Rightarrow> None)"

text \<open>
  The inner loop, by the number of iterations \<open>typeCount - i\<close> still allowed; the state is
  the pair of \<open>flashcards\<close> and \<open>cardCount\<close>.
\<close>

fun typeLoop ::
  "(nat \<Rightarrow> flashcard option) \<Rightarrow> nat \<Rightarrow> nat \<Rightarrow> flashcard list \<times> nat \<Rightarrow> flashcard list \<times> nat" where
  "typeLoop build targetCount 0 st = st"
| "typeLoop build targetCount (Suc n) (flashcards, cardCount) =
     (if cardCount < targetCount then
        (case build cardCount of
           Some newCard \<Rightarrow> typeLoop build targetCount n (flashcards @ [newCard], cardCount + 1)
         | None \<Rightarrow> typeLoop build targetCount n (flashcards, cardCount))
      else (flashcards, cardCount))"

definition heuristicCards ::
  "(nat \<Rightarrow> nat) \<Rightarrow> (nat \<Rightarrow> string list \<Rightarrow> string list) \<Rightarrow> string list \<Rightarrow> string list
     \<Rightarrow> nat \<Rightarrow> flashcard list \<times> nat" where
  "heuristicCards clock shuffle sentences keyTerms targetCount =
     foldl (\<lambda>st (t, weight).
              typeLoop (buildCard clock shuffle sentences keyTerms t) targetCount
                (typeCount targetCount weight) st)
           ([], 0) questionTypes"

definition generateAdvancedFlashcards ::
  "(nat \<Rightarrow> nat) \<Rightarrow> (nat \<Rightarrow> string list \<Rightarrow> string list) \<Rightarrow> string \<Rightarrow> nat \<Rightarrow> flashcard list" where
  "generateAdvancedFlashcards clock shuffle notes targetCount =
     (let sentences = sentencesOf notes;
          keyTerms = extractKeyTerms notes
      in take targetCount (fst (heuristicCards clock shuffle sentences keyTerms targetCount)))"

section \<open>Store, AI service and clock\<close>

text \<open>
  The key-value store, the text-generation service, the regular-expression engine, the
  clock and the random source are outside the repository. Their behaviour during one
  request is a value of type \<open>world\<close>, over which the theorems quantify:
  \<^item> \<open>apiKey\<close>: \<^verbatim>\<open>Deno.env.get('HUGGINGFACE_API_KEY')\<close>;
  \<^item> \<open>fetchOutcome d\<close>: what the request of tier \<open>d\<close> does: it throws somewhere between
    \<^verbatim>\<open>fetch\<close> and the parsing of the body, it answers with a status that is not ok, or
    it yields the text \<^verbatim>\<open>result[0]?.generated_text || ''\<close>;
  \<^item> \<open>matchQA\<close>, \<open>matchPair\<close>: the matches of the two regular expressions of
    \<^verbatim>\<open>parseFlashcards\<close> (no match is the empty list, respectively \<^const>\<open>None\<close>);
  \<^item> \<open>kvSetFails n\<close>: the call number \<open>n\<close> of \<^verbatim>\<open>kv.set\<close> in this request rejects;
  \<^item> \<open>clock\<close>: the value of \<^verbatim>\<open>Date.now()\<close> at each place that reads it;
  \<^item> \<open>shuffle\<close>: the outcome of the random sort, per heuristic run and cursor.
\<close>

datatype status = NotStarted | Generating | Completed

record progress =
  current :: nat
  total :: nat
  status :: status

record note_record =
  note_id :: string
  content :: string
  note_createdAt :: nat

record saved_flashcard = flashcard +
  userId :: string
  noteId :: string
  createdAt :: nat

datatype kv_value = VProgress progress | VNote note_record | VCard saved_flashcard

datatype phase = Primary | Fallback

datatype site = Session | Parsed difficulty nat | Built phase nat | Saved phase

datatype fetch_outcome = Throws | NotOk | Generated string

datatype error = StoreError

record world =
  apiKey :: "string option"
  fetchOutcome :: "difficulty \<Rightarrow> fetch_outcome"
  matchQA :: "string \<Rightarrow> string list"
  matchPair :: "string \<Rightarrow> (string \<times> string) option"
  kvSetFails :: "nat \<Rightarrow> bool"
  clock :: "site \<Rightarrow> nat"
  shuffle :: "phase \<Rightarrow> nat \<Rightarrow> string list \<Rightarrow> string list"

text \<open>
  The state of one request: the writes the store has accepted, in order (the store's
  content under a key is the last write to it), the number of \<^verbatim>\<open>kv.set\<close> calls made,
  and the prompts sent to the service.
\<close>

record server_state =
  store :: "(string \<times> kv_value) list"
  kvCalls :: nat
  requests :: "(difficulty \<times> string) list"

definition kv_set :: "world \<Rightarrow> string \<Rightarrow> kv_value \<Rightarrow> server_state \<Rightarrow> bool \<times> server_state" where
  \<comment> \<open>\<^verbatim>\<open>await kv.set(key, value)\<close>; \<^const>\<open>False\<close> when the call rejects\<close>
  "kv_set w key v st =
     (if kvSetFails w (kvCalls st) then (False, st\<lparr>kvCalls := kvCalls st + 1\<rparr>)
      else (True, st\<lparr>store := store st @ [(key, v)], kvCalls := kvCalls st + 1\<rparr>))"

section \<open>AI tier coordinator\<close>

definition difficultyName :: "difficulty \<Rightarrow> string" where
  "difficultyName d =
     (case d of Basic \<Rightarrow> ''basic'' | Intermediate \<Rightarrow> ''intermediate'' | Advanced \<Rightarrow> ''advanced'')"

definition createPromptForDifficulty :: "string \<Rightarrow> nat \<Rightarrow> difficulty \<Rightarrow> string" where
  "createPromptForDifficulty notes quota d =
     (let basePrompt = ''Based on these study notes, generate '' @ showNat quota
                       @ '' question and answer pairs for flashcards.'';
          format = '' Format each as '' @ [CHR 0x22] @ ''Q: [question] A: [answer]''
                   @ [CHR 0x22] @ ''. Notes: '' @ notes
      in case d of
           Basic \<Rightarrow> basePrompt
             @ '' Focus on basic facts, definitions, and simple recall questions.'' @ format
         | Intermediate \<Rightarrow> basePrompt
             @ '' Focus on understanding, application, and analysis questions that require deeper thinking.''
             @ format
         | Advanced \<Rightarrow> basePrompt
             @ '' Focus on synthesis, evaluation, and critical thinking questions that require connecting multiple concepts.''
             @ format)"

text \<open>
  \<^verbatim>\<open>
  function parseFlashcards(generatedText: string, originalNotes: string, difficulty = 'basic') {
    const flashcards = [];
    const qaPairs = generatedText.match(/Q:\s*(.+?)\s*A:\s*(.+?)(?=Q:|$)/gi);
    if (qaPairs && qaPairs.length > 0) {
      qaPairs.forEach((pair, index) => {
        const match = pair.match(/Q:\s*(.+?)\s*A:\s*(.+)/i);
        if (match && match.length >= 3) {
          flashcards.push({ id: `card_${Date.now()}_${index}_${difficulty}`,
            question: match[1].trim(), answer: match[2].trim(),
            difficulty: difficulty, type: 'ai_generated' });
        }
      });
    }
    return flashcards;
  }
  \<close>
\<close>

definition parseFlashcards :: "world \<Rightarrow> string \<Rightarrow> difficulty \<Rightarrow> flashcard list" where
  "parseFlashcards w generatedText d =
     concat (map (\<lambda>(index, pair).
                    case matchPair w pair of
                      None \<Rightarrow> []
                    | Some (q, a) \<Rightarrow>
                        [\<lparr>card_id = cardId (clock w (Parsed d index)) index (difficultyName d),
                          question = trim q,
                          answer = trim a,
                          difficulty = d,
                          card_type = AiGenerated\<rparr>])
                 (enumerate 0 (matchQA w generatedText)))"

text \<open>
  \<^verbatim>\<open>
  async function generateFlashcardsWithProgress(notes, targetQuestions, apiKey) {
    const flashcards = [];
    const sessionId = `session_${Date.now()}`;
    await kv.set(`progress:${sessionId}`, { current: 0, total: targetQuestions, status: 'generating' });
    const questionTypes = [
      { type: 'basic', count: Math.ceil(targetQuestions * 0.4), difficulty: 'basic' },
      { type: 'intermediate', count: Math.ceil(targetQuestions * 0.4), difficulty: 'intermediate' },
      { type: 'advanced', count: Math.floor(targetQuestions * 0.2), difficulty: 'advanced' } ];
    for (const questionType of questionTypes) {
      const prompt = createPromptForDifficulty(notes, questionType.count, questionType.difficulty);
      try {
        const response = await fetch(...);
        if (response.ok) {
          const result = await response.json();
          const generatedText = result[0]?.generated_text || '';
          const newCards = parseFlashcards(generatedText, notes, questionType.difficulty);
          flashcards.push(...newCards);
          await kv.set(`progress:${sessionId}`,
            { current: flashcards.length, total: targetQuestions, status: 'generating' });
        }
      } catch (error) { console.log(...); }
    }
    if (flashcards.length < targetQuestions) {
      const additionalCards = generateAdvancedFlashcards(notes, targetQuestions - flashcards.length);
      flashcards.push(...additionalCards);
    }
    await kv.set(`progress:${sessionId}`,
      { current: flashcards.length, total: targetQuestions, status: 'completed' });
    return flashcards.slice(0, targetQuestions);
  }
  \<close>
  The counts of the three tiers, \<open>\<lceil>0.4 n\<rceil>\<close>, \<open>\<lceil>0.4 n\<rceil>\<close> and \<open>\<lfloor>0.2 n\<rfloor>\<close>, only enter the
  prompts. A rejected \<^verbatim>\<open>kv.set\<close> outside the \<^verbatim>\<open>try\<close> makes the function throw
  (\<^const>\<open>Inl\<close>); inside the \<^verbatim>\<open>try\<close> it is caught with the tier's other failures.
\<close>

definition tiers :: "nat \<Rightarrow> (difficulty \<times> nat) list" where
  "tiers targetQuestions =
     [(Basic, (targetQuestions * 4 + 9) div 10),
      (Intermediate, (targetQuestions * 4 + 9) div 10),
      (Advanced, targetQuestions * 2 div 10)]"

definition progressKey :: "world \<Rightarrow> string" where
  "progressKey w = ''progress:'' @ ''session_'' @ showNat (clock w Session)"

fun tierStep ::
  "world \<Rightarrow> string \<Rightarrow> nat \<Rightarrow> flashcard list \<times> server_state \<Rightarrow> difficulty \<times> nat
     \<Rightarrow> flashcard list \<times> server_state" where
  "tierStep w notes targetQuestions (flashcards, st) (d, quota) =
     (let prompt = createPromptForDifficulty notes quota d;
          st1 = st\<lparr>requests := requests st @ [(d, prompt)]\<rparr>
      in case fetchOutcome w d of
           Throws \<Rightarrow> (flashcards, st1)
         | NotOk \<Rightarrow> (flashcards, st1)
         | Generated generatedText \<Rightarrow>
             let newCards = parseFlashcards w generatedText d;
                 flashcards' = flashcards @ newCards
             in (flashcards',
                 snd (kv_set w (progressKey w)
                        (VProgress \<lparr>current = length flashcards', total = targetQuestions,
                                    status = Generating\<rparr>) st1)))"

definition generateFlashcardsWithProgress ::
  "world \<Rightarrow> string \<Rightarrow> nat \<Rightarrow> server_state \<Rightarrow> (error + flashcard list) \<times> server_state" where
  "generateFlashcardsWithProgress w notes targetQuestions st =
     (case kv_set w (progressKey w)
             (VProgress \<lparr>current = 0, total = targetQuestions, status = Generating\<rparr>) st of
        (False, st1) \<Rightarrow> (Inl StoreError, st1)
      | (True, st1) \<Rightarrow>
          (case foldl (tierStep w notes targetQuestions) ([], st1) (tiers targetQuestions) of
             (flashcards, st2) \<Rightarrow>
               let flashcards' =
                     (if length flashcards < targetQuestions
                      then flashcards
                           @ generateAdvancedFlashcards (\<lambda>i. clock w (Built Primary i))
                               (shuffle w Primary) notes (targetQuestions - length flashcards)
                      else flashcards)
               in (case kv_set w (progressKey w)
                          (VProgress \<lparr>current = length flashcards', total = targetQuestions,
                                      status = Completed\<rparr>) st2 of
                     (False, st3) \<Rightarrow> (Inl StoreError, st3)
                   | (True, st3) \<Rightarrow> (Inr (take targetQuestions flashcards'), st3))))"

section \<open>Persistence and the request handler\<close>

text \<open>
  \<^verbatim>\<open>
  async function saveFlashcards(flashcards: any[], userId: string, originalNotes: string) {
    const timestamp = Date.now();
    const noteId = `note_${timestamp}`;
    await kv.set(`notes:${userId}:${noteId}`,
                 { id: noteId, content: originalNotes, createdAt: timestamp });
    const savedFlashcards = [];
    for (let i = 0; i < flashcards.length; i++) {
      const flashcard = { ...flashcards[i], userId, noteId, createdAt: timestamp };
      await kv.set(`flashcards:${userId}:${flashcard.id}`, flashcard);
      savedFlashcards.push(flashcard);
    }
    return savedFlashcards;
  }
  \<close>
  \<open>userId\<close> is the text that the template literals print for the request's field.
\<close>

definition noteIdOf :: "nat \<Rightarrow> string" where
  \<comment> \<open>\<^verbatim>\<open>`note_${timestamp}`\<close>\<close>
  "noteIdOf timestamp = ''note_'' @ showNat timestamp"

definition noteKey :: "string \<Rightarrow> string \<Rightarrow> string" where
  \<comment> \<open>\<^verbatim>\<open>`notes:${userId}:${noteId}`\<close>\<close>
  "noteKey uid nid = ''notes:'' @ uid @ '':'' @ nid"

definition flashcardKey :: "string \<Rightarrow> string \<Rightarrow> string" where
  \<comment> \<open>\<^verbatim>\<open>`flashcards:${userId}:${flashcard.id}`\<close>\<close>
  "flashcardKey uid cid = ''flashcards:'' @ uid @ '':'' @ cid"

definition attach :: "string \<Rightarrow> string \<Rightarrow> nat \<Rightarrow> flashcard \<Rightarrow> saved_flashcard" where
  "attach uid nid timestamp c =
     \<lparr>card_id = card_id c, question = question c, answer = answer c,
      difficulty = difficulty c, card_type = card_type c,
      userId = uid, noteId = nid, createdAt = timestamp\<rparr>"

fun saveLoop ::
  "world \<Rightarrow> string \<Rightarrow> string \<Rightarrow> nat \<Rightarrow> flashcard list \<Rightarrow> saved_flashcard list \<Rightarrow> server_state
     \<Rightarrow> (error + saved_flashcard list) \<times> server_state" where
  "saveLoop w uid nid timestamp [] savedFlashcards st = (Inr savedFlashcards, st)"
| "saveLoop w uid nid timestamp (c # cs) savedFlashcards st =
     (let flashcard = attach uid nid timestamp c
      in case kv_set w (flashcardKey uid (card_id c)) (VCard flashcard) st of
           (False, st1) \<Rightarrow> (Inl StoreError, st1)
         | (True, st1) \<Rightarrow> saveLoop w uid nid timestamp cs (savedFlashcards @ [flashcard]) st1)"

definition saveFlashcards ::
  "world \<Rightarrow> phase \<Rightarrow> flashcard list \<Rightarrow> string \<Rightarrow> string \<Rightarrow> server_state
     \<Rightarrow> (error + saved_flashcard list) \<times> server_state" where
  "saveFlashcards w ph flashcards uid originalNotes st =
     (let timestamp = clock w (Saved ph);
          nid = noteIdOf timestamp
      in case kv_set w (noteKey uid nid)
                (VNote \<lparr>note_id = nid, content = originalNotes, note_createdAt = timestamp\<rparr>) st of
           (False, st1) \<Rightarrow> (Inl StoreError, st1)
         | (True, st1) \<Rightarrow> saveLoop w uid nid timestamp flashcards [] st1)"

text \<open>
  The handler of \<^verbatim>\<open>POST /generate-flashcards\<close>. The body is either not readable as a
  JSON object (\<^verbatim>\<open>c.req.json()\<close> or the destructuring throws) or gives the fields
  \<open>notes\<close>, any JSON value or none, and \<open>userId\<close>.
  \<^verbatim>\<open>
    try {
      const { notes, userId, progressCallback } = await c.req.json();
      if (!notes || typeof notes !== 'string') {
        return c.json({ error: 'Notes are required and must be a string' }, 400);
      }
      const targetQuestions = calculateQuestionCount(notes);
      const huggingfaceApiKey = Deno.env.get('HUGGINGFACE_API_KEY');
      if (!huggingfaceApiKey) {
        const flashcards = await generateAdvancedFlashcards(notes, targetQuestions);
        const savedFlashcards = await saveFlashcards(flashcards, userId, notes);
        return c.json({ flashcards: savedFlashcards, totalGenerated: flashcards.length });
      }
      try {
        const flashcards = await generateFlashcardsWithProgress(notes, targetQuestions, huggingfaceApiKey);
        const savedFlashcards = await saveFlashcards(flashcards, userId, notes);
        return c.json({ flashcards: savedFlashcards, totalGenerated: flashcards.length });
      } catch (aiError) {
        const flashcards = await generateAdvancedFlashcards(notes, targetQuestions);
        const savedFlashcards = await saveFlashcards(flashcards, userId, notes);
        return c.json({ flashcards: savedFlashcards, totalGenerated: flashcards.length });
      }
    } catch (error) {
      return c.json({ error: 'Failed to generate flashcards' }, 500);
    }
  \<close>
\<close>

datatype js_value = JUndefined | JNull | JBool bool | JNumber int | JString string | JObject

datatype request = MalformedBody | Body js_value string

datatype response = Ok200 "saved_flashcard list" nat | Err400 string | Err500 string

definition heuristicResponse ::
  "world \<Rightarrow> phase \<Rightarrow> string \<Rightarrow> nat \<Rightarrow> string \<Rightarrow> server_state \<Rightarrow> response \<times> server_state" where
  "heuristicResponse w ph notes targetQuestions uid st =
     (let flashcards = generateAdvancedFlashcards (\<lambda>i. clock w (Built ph i)) (shuffle w ph)
                         notes targetQuestions
      in case saveFlashcards w ph flashcards uid notes st of
           (Inr savedFlashcards, st1) \<Rightarrow> (Ok200 savedFlashcards (length flashcards), st1)
         | (Inl e, st1) \<Rightarrow> (Err500 ''Failed to generate flashcards'', st1))"

definition aiResponse ::
  "world \<Rightarrow> string \<Rightarrow> nat \<Rightarrow> string \<Rightarrow> server_state \<Rightarrow> response \<times> server_state" where
  "aiResponse w notes targetQuestions uid st =
     (case generateFlashcardsWithProgress w notes targetQuestions st of
        (Inl aiError, st1) \<Rightarrow> heuristicResponse w Fallback notes targetQuestions uid st1
      | (Inr flashcards, st1) \<Rightarrow>
          (case saveFlashcards w Primary flashcards uid notes st1 of
             (Inr savedFlashcards, st2) \<Rightarrow> (Ok200 savedFlashcards (length flashcards), st2)
           | (Inl aiError, st2) \<Rightarrow> heuristicResponse w Fallback notes targetQuestions uid st2))"

definition generateFlashcardsHandler ::
  "world \<Rightarrow> request \<Rightarrow> server_state \<Rightarrow> response \<times> server_state" where
  "generateFlashcardsHandler w req st =
     (case req of
        MalformedBody \<Rightarrow> (Err500 ''Failed to generate flashcards'', st)
      | Body notesValue uid \<Rightarrow>
          (case notesValue of
             JString notes \<Rightarrow>
               if notes = [] then (Err400 ''Notes are required and must be a string'', st)
               else
                 let targetQuestions = nat (calculateQuestionCount notes)
                 in (case apiKey w of
                       None \<Rightarrow> heuristicResponse w Primary notes targetQuestions uid st
                     | Some key \<Rightarrow>
                         if key = [] then heuristicResponse w Primary notes targetQuestions uid st
                         else aiResponse w notes targetQuestions uid st)
           | _ \<Rightarrow> (Err400 ''Notes are required and must be a string'', st)))"

section \<open>Notions used by the claims\<close>

text \<open>The pairing of archetype and difficulty that the four builders use.\<close>

definition archetypeOk :: "flashcard \<Rightarrow> bool" where
  "archetypeOk c =
     ((card_type c = FillBlank \<and> difficulty c = Basic)
    \<or> (card_type c = TrueFalse \<and> difficulty c = Basic)
    \<or> (card_type c = Definition \<and> difficulty c = Intermediate)
    \<or> (card_type c = MultipleChoice \<and> difficulty c = Advanced))"



text \<open>
  An archetype's quota is satisfiable by its builder alone: run on its own from the
  cursor 0, the archetype's loop delivers its whole quota.
\<close>

definition quotaSatisfiable ::
  "(nat \<Rightarrow> nat) \<Rightarrow> (nat \<Rightarrow> string list \<Rightarrow> string list) \<Rightarrow> string list \<Rightarrow> string list \<Rightarrow> nat
     \<Rightarrow> card_type \<Rightarrow> nat \<Rightarrow> bool" where
  "quotaSatisfiable clk shf sentences keyTerms targetCount t weight =
     (snd (typeLoop (buildCard clk shf sentences keyTerms t) targetCount
             (typeCount targetCount weight) ([], 0))
      = min targetCount (typeCount targetCount weight))"


text \<open>The progress records that the store has accepted, in the order of writing.\<close>

definition progressWrites :: "server_state \<Rightarrow> progress list" where
  "progressWrites st =
     concat (map (\<lambda>(k, v). case v of VProgress p \<Rightarrow> [p] | _ \<Rightarrow> []) (store st))"

text \<open>
  The invariant of the tier loop on the progress records: the records written since the
  start of the run are ordered by \<open>current\<close>, and none exceeds the number of cards
  accumulated so far.
\<close>

definition progressInv :: "progress list \<Rightarrow> flashcard list \<times> server_state \<Rightarrow> bool" where
  "progressInv base acc =
     (\<exists>ps. progressWrites (snd acc) = base @ ps \<and> sorted (map current ps)
           \<and> (\<forall>p \<in> set ps. current p \<le> length (fst acc)))"

text \<open>
  For the fill-in-blank builder: the sentence it selects; the words of a sentence, the
  maximal runs of characters other than the space; whether two spaces stand next to each
  other; \<^verbatim>\<open>words.join(' ')\<close>; the position of the first occurrence of a text in a
  string (\<^verbatim>\<open>indexOf\<close> on strings); and the position at which the word number \<open>k\<close>
  starts in the joined words.
\<close>

definition selectedSentence :: "string list \<Rightarrow> nat \<Rightarrow> string" where
  "selectedSentence sentences index = trim (sentences ! (index mod length sentences))"

fun spaceWords :: "string \<Rightarrow> string list" where
  "spaceWords [] = []"
| "spaceWords [c] = (if c = CHR '' '' then [] else [[c]])"
| "spaceWords (c # d # cs) =
     (if c = CHR '' '' then spaceWords (d # cs)
      else if d = CHR '' '' then [c] # spaceWords (d # cs)
      else (case spaceWords (d # cs) of
              [] \<Rightarrow> [[c]]
            | w # ws \<Rightarrow> (c # w) # ws))"

fun adjacentSpaces :: "string \<Rightarrow> bool" where
  "adjacentSpaces (c # d # cs) = ((c = CHR '' '' \<and> d = CHR '' '') \<or> adjacentSpaces (d # cs))"
| "adjacentSpaces _ = False"

fun joinSpace :: "string list \<Rightarrow> string" where
  "joinSpace [] = []"
| "joinSpace [w] = w"
| "joinSpace (w # v # ws) = w @ '' '' @ joinSpace (v # ws)"

fun firstIndexOf :: "string \<Rightarrow> string \<Rightarrow> nat option" where
  "firstIndexOf pat [] = (if pat = [] then Some 0 else None)"
| "firstIndexOf pat (c # cs) =
     (if take (length pat) (c # cs) = pat then Some 0
      else map_option Suc (firstIndexOf pat cs))"

definition wordOffset :: "string list \<Rightarrow> nat \<Rightarrow> nat" where
  "wordOffset ws k = sum_list (map (\<lambda>w. Suc (length w)) (take k ws))"

section \<open>Concrete runs\<close>

text \<open>
  Worlds and inputs at which the theorems below are instantiated. In
  \<open>worldBasicTierOnly\<close> the basic tier answers with two question/answer pairs and the
  other two tiers fail in transport; the two matchers give what the regular
  expressions of \<^verbatim>\<open>parseFlashcards\<close> match on that answer. The other worlds differ
  from it in the store: it rejects every write, only the first one (the initial
  progress record), only the fourth one (the note record of the AI path), or the
  fourth and all later ones.
\<close>

definition emptyState :: server_state where
  "emptyState = \<lparr>store = [], kvCalls = 0, requests = []\<rparr>"

definition twoPairs :: string where
  "twoPairs = ''Q: a A: b Q: c A: d''"

definition worldBasicTierOnly :: world where
  "worldBasicTierOnly =
     \<lparr>apiKey = Some ''hf_key'',
      fetchOutcome = (\<lambda>d. if d = Basic then Generated twoPairs else Throws),
      matchQA = (\<lambda>t. if t = twoPairs then [''Q: a A: b '', ''Q: c A: d''] else []),
      matchPair = (\<lambda>p. if p = ''Q: a A: b '' then Some (''a'', ''b '')
                        else if p = ''Q: c A: d'' then Some (''c'', ''d'') else None),
      kvSetFails = (\<lambda>n. False),
      clock = (\<lambda>s. 7),
      shuffle = (\<lambda>ph i xs. xs)\<rparr>"

definition worldStoreDown :: world where
  "worldStoreDown = worldBasicTierOnly\<lparr>kvSetFails := (\<lambda>n. True)\<rparr>"

definition worldFirstWriteFails :: world where
  "worldFirstWriteFails = worldBasicTierOnly\<lparr>kvSetFails := (\<lambda>n. n = 0)\<rparr>"

definition worldSaveFails :: world where
  "worldSaveFails = worldBasicTierOnly\<lparr>kvSetFails := (\<lambda>n. n = 3)\<rparr>"

definition worldSaveDown :: world where
  "worldSaveDown = worldBasicTierOnly\<lparr>kvSetFails := (\<lambda>n. 3 \<le> n)\<rparr>"

definition shortNotes :: string where
  "shortNotes = ''Tiny note here ok.''"

definition cellNotes :: string where
  "cellNotes = ''Mitochondria makes energy daily. it also stores calcium. cells need them badly.''"


text \<open>
  Notes with five sentences and the key terms \<^verbatim>\<open>Alpha\<close>, \<^verbatim>\<open>Bravo\<close>, \<^verbatim>\<open>Zeta\<close> and
  \<^verbatim>\<open>Iota\<close>, the last two from fragments too short to be sentences; and a text of 99
  words in 9 sentences that ends with a blank.
\<close>

definition alphaNotes :: string where
  "alphaNotes = ''Alpha is the first letter of all. Bravo is the second one in line. Zeta. Iota. some more plain words come here now. and then even more text follows it. last of the short ones is here.''"


definition catSentence :: string where
  "catSentence = ''the cat sat in the big hat''"

section \<open>Input validation\<close>

text \<open>
  Claim C7. When the \<open>notes\<close> field of the request is the empty string or is not a string
  at all, the handler answers with the invalid-input error (status 400) and leaves the
  state as it was: no note record, no flashcard and no progress record is written, and
  \<^verbatim>\<open>kv.set\<close> is not even called.
\<close>

theorem invalid_input_no_side_effects:
  "notesValue = JString [] \<or> (\<forall>s. notesValue \<noteq> JString s) \<Longrightarrow>
   generateFlashcardsHandler w (Body notesValue uid) st
     = (Err400 ''Notes are required and must be a string'', st)"
  by (cases notesValue) (auto simp: generateFlashcardsHandler_def)

theorem invalid_input_no_side_effects_witness:
  "generateFlashcardsHandler worldBasicTierOnly (Body (JString []) ''u1'') emptyState
     = (Err400 ''Notes are required and must be a string'', emptyState)
   \<and> generateFlashcardsHandler worldBasicTierOnly (Body JNull ''u1'') emptyState
     = (Err400 ''Notes are required and must be a string'', emptyState)"
  using invalid_input_no_side_effects [of "JString []" worldBasicTierOnly "''u1''" emptyState]
        invalid_input_no_side_effects [of JNull worldBasicTierOnly "''u1''" emptyState]
  by simp

section \<open>Heuristic generation: counts and archetypes\<close>

lemma typeLoop_fst_length:
  "length (fst st) = snd st \<Longrightarrow>
   length (fst (typeLoop build T n st)) = snd (typeLoop build T n st)"
  by (induction build T n st rule: typeLoop.induct) (auto split: option.splits)

lemma typeLoop_all:
  "\<forall>c \<in> set (fst st). P c \<Longrightarrow> (\<And>i c. build i = Some c \<Longrightarrow> P c) \<Longrightarrow>
   \<forall>c \<in> set (fst (typeLoop build T n st)). P c"
  by (induction build T n st rule: typeLoop.induct) (auto split: option.splits)

lemma typeLoop_le:
  "snd st \<le> T \<Longrightarrow> snd (typeLoop build T n st) \<le> T"
  by (induction build T n st rule: typeLoop.induct) (auto split: option.splits)

lemma buildCard_archetype:
  "buildCard clk shf sentences keyTerms t i = Some c \<Longrightarrow> archetypeOk c"
  by (cases t)
     (auto simp: buildCard_def archetypeOk_def generateFillInBlankCard_def
        generateDefinitionCard_def generateTrueFalseCard_def generateMultipleChoiceCard_def
        Let_def split: if_splits option.splits)

lemma heuristicCards_all:
  assumes "\<And>t i c. buildCard clk shf sentences keyTerms t i = Some c \<Longrightarrow> P c"
  shows "\<forall>c \<in> set (fst (heuristicCards clk shf sentences keyTerms T)). P c"
  unfolding heuristicCards_def questionTypes_def
  apply simp
  apply (intro typeLoop_all)
          apply (auto dest: assms)
  done

text \<open>
  Claim C10. Every card that the heuristic path returns has the difficulty of its
  archetype: fill-in-blank and true/false cards are basic, definition cards are
  intermediate, multiple-choice cards are advanced, and no other pairing of type and
  difficulty occurs, for every clock, every outcome of the shuffle, every note text and
  every target.
\<close>
theorem heuristic_difficulty_by_archetype:
  "\<forall>c \<in> set (generateAdvancedFlashcards clk shf notes T).
     (card_type c = FillBlank \<and> difficulty c = Basic)
   \<or> (card_type c = TrueFalse \<and> difficulty c = Basic)
   \<or> (card_type c = Definition \<and> difficulty c = Intermediate)
   \<or> (card_type c = MultipleChoice \<and> difficulty c = Advanced)"
proof
  fix c assume "c \<in> set (generateAdvancedFlashcards clk shf notes T)"
  then have "c \<in> set (fst (heuristicCards clk shf (sentencesOf notes)
                              (extractKeyTerms notes) T))"
    by (auto simp: generateAdvancedFlashcards_def Let_def dest: in_set_takeD)
  moreover have "\<forall>c \<in> set (fst (heuristicCards clk shf (sentencesOf notes)
                              (extractKeyTerms notes) T)). archetypeOk c"
    by (rule heuristicCards_all) (rule buildCard_archetype)
  ultimately show "(card_type c = FillBlank \<and> difficulty c = Basic)
   \<or> (card_type c = TrueFalse \<and> difficulty c = Basic)
   \<or> (card_type c = Definition \<and> difficulty c = Intermediate)
   \<or> (card_type c = MultipleChoice \<and> difficulty c = Advanced)"
    by (auto simp: archetypeOk_def)
qed

lemma heuristicCards_length:
  "length (fst (heuristicCards clk shf sentences keyTerms T))
     = snd (heuristicCards clk shf sentences keyTerms T)"
  unfolding heuristicCards_def questionTypes_def
  by (simp add: typeLoop_fst_length)

lemma heuristicCards_le:
  "snd (heuristicCards clk shf sentences keyTerms T) \<le> T"
  unfolding heuristicCards_def questionTypes_def
  by (simp add: typeLoop_le)

text \<open>
  Claim C3. For every note text and target count \<open>T\<close>, the heuristic path returns at most
  \<open>T\<close> flashcards, and so does the AI-tier path whenever it returns, for every outcome of
  the tiers, of the parsing and of the heuristic backfill.
\<close>
theorem generation_at_most_target:
  "length (generateAdvancedFlashcards clk shf notes T) \<le> T
   \<and> (\<forall>flashcards st'.
        generateFlashcardsWithProgress w notes T st = (Inr flashcards, st')
        \<longrightarrow> length flashcards \<le> T)"
  by (auto simp: generateAdvancedFlashcards_def generateFlashcardsWithProgress_def Let_def
           split: prod.splits bool.splits)

lemma typeLoop_window:
  "\<forall>i. snd st \<le> i \<and> i < min T (snd st + n) \<longrightarrow> build i \<noteq> None \<Longrightarrow> snd st \<le> T \<Longrightarrow>
   snd (typeLoop build T n st) = min T (snd st + n)"
proof (induction build T n st rule: typeLoop.induct)
  case (1 build T st)
  then show ?case by simp
next
  case (2 build T n flashcards cardCount)
  show ?case
  proof (cases "cardCount < T")
    case True
    with "2.prems"(1) obtain c where c: "build cardCount = Some c" by fastforce
    have "\<forall>i. snd (flashcards @ [c], cardCount + 1) \<le> i
              \<and> i < min T (snd (flashcards @ [c], cardCount + 1) + n) \<longrightarrow> build i \<noteq> None"
      using "2.prems"(1) by simp
    moreover have "snd (flashcards @ [c], cardCount + 1) \<le> T" using True by simp
    ultimately have "snd (typeLoop build T n (flashcards @ [c], cardCount + 1))
        = min T (snd (flashcards @ [c], cardCount + 1) + n)"
      using "2.IH"(2) [OF True c] by blast
    then show ?thesis using True c by simp
  next
    case False
    with "2.prems"(2) show ?thesis by simp
  qed
qed

lemma quota_sum: "T \<le> typeCount T 3 + typeCount T 3 + typeCount T 2 + typeCount T 2"
  unfolding typeCount_def by arith

text \<open>
  Claim C4, as amended. For every target \<open>T\<close> the heuristic coordinator returns at most
  \<open>T\<close> cards. The four archetypes share one cursor, so each archetype's turn covers a
  window of cursor positions: with the quotas \<open>q\<^sub>1 = q\<^sub>2 = \<lceil>T \<times> 0.3\<rceil>\<close> and
  \<open>q\<^sub>3 = q\<^sub>4 = \<lceil>T \<times> 0.2\<rceil>\<close>, fill-in-blank has the positions below \<open>q\<^sub>1\<close>, definition
  those from \<open>q\<^sub>1\<close> below \<open>q\<^sub>1 + q\<^sub>2\<close>, true/false those from \<open>q\<^sub>1 + q\<^sub>2\<close> below
  \<open>q\<^sub>1 + q\<^sub>2 + q\<^sub>3\<close>, and multiple-choice the positions from there on, every window cut
  at \<open>T\<close>. When each builder returns a card at every position of its own window,
  exactly \<open>T\<close> cards are returned.
\<close>

theorem heuristic_count:
  "length (generateAdvancedFlashcards clk shf notes T) \<le> T
   \<and> ((\<forall>i<T.
          (i < typeCount T 3
             \<longrightarrow> buildCard clk shf (sentencesOf notes) (extractKeyTerms notes) FillBlank i \<noteq> None)
        \<and> (typeCount T 3 \<le> i \<and> i < typeCount T 3 + typeCount T 3
             \<longrightarrow> buildCard clk shf (sentencesOf notes) (extractKeyTerms notes) Definition i \<noteq> None)
        \<and> (typeCount T 3 + typeCount T 3 \<le> i \<and> i < typeCount T 3 + typeCount T 3 + typeCount T 2
             \<longrightarrow> buildCard clk shf (sentencesOf notes) (extractKeyTerms notes) TrueFalse i \<noteq> None)
        \<and> (typeCount T 3 + typeCount T 3 + typeCount T 2 \<le> i
             \<longrightarrow> buildCard clk shf (sentencesOf notes) (extractKeyTerms notes) MultipleChoice i \<noteq> None))
      \<longrightarrow> length (generateAdvancedFlashcards clk shf notes T) = T)"
proof (intro conjI impI)
  show "length (generateAdvancedFlashcards clk shf notes T) \<le> T"
    by (simp add: generateAdvancedFlashcards_def Let_def)
next
  let ?b = "buildCard clk shf (sentencesOf notes) (extractKeyTerms notes)"
  let ?q3 = "typeCount T 3"
  let ?q2 = "typeCount T 2"
  assume ok: "\<forall>i<T.
          (i < ?q3 \<longrightarrow> ?b FillBlank i \<noteq> None)
        \<and> (?q3 \<le> i \<and> i < ?q3 + ?q3 \<longrightarrow> ?b Definition i \<noteq> None)
        \<and> (?q3 + ?q3 \<le> i \<and> i < ?q3 + ?q3 + ?q2 \<longrightarrow> ?b TrueFalse i \<noteq> None)
        \<and> (?q3 + ?q3 + ?q2 \<le> i \<longrightarrow> ?b MultipleChoice i \<noteq> None)"
  define s1 where "s1 = typeLoop (?b FillBlank) T ?q3 ([], 0)"
  define s2 where "s2 = typeLoop (?b Definition) T ?q3 s1"
  define s3 where "s3 = typeLoop (?b TrueFalse) T ?q2 s2"
  define s4 where "s4 = typeLoop (?b MultipleChoice) T ?q2 s3"
  have 1: "snd s1 = min T ?q3"
    unfolding s1_def using ok by (subst typeLoop_window) auto
  have 2: "snd s2 = min T (snd s1 + ?q3)"
    unfolding s2_def
  proof (rule typeLoop_window)
    show "\<forall>i. snd s1 \<le> i \<and> i < min T (snd s1 + ?q3) \<longrightarrow> ?b Definition i \<noteq> None"
      using ok 1 by (auto simp: min_def split: if_splits)
    show "snd s1 \<le> T" using 1 by simp
  qed
  have 3: "snd s3 = min T (snd s2 + ?q2)"
    unfolding s3_def
  proof (rule typeLoop_window)
    show "\<forall>i. snd s2 \<le> i \<and> i < min T (snd s2 + ?q2) \<longrightarrow> ?b TrueFalse i \<noteq> None"
      using ok 1 2 by (auto simp: min_def split: if_splits)
    show "snd s2 \<le> T" using 2 by simp
  qed
  have 4: "snd s4 = min T (snd s3 + ?q2)"
    unfolding s4_def
  proof (rule typeLoop_window)
    show "\<forall>i. snd s3 \<le> i \<and> i < min T (snd s3 + ?q2) \<longrightarrow> ?b MultipleChoice i \<noteq> None"
      using ok 1 2 3 by (auto simp: min_def split: if_splits)
    show "snd s3 \<le> T" using 3 by simp
  qed
  have "snd s4 = T"
    using 1 2 3 4 quota_sum [of T] by (simp add: min_def split: if_splits)
  moreover have "heuristicCards clk shf (sentencesOf notes) (extractKeyTerms notes) T = s4"
    by (simp add: heuristicCards_def questionTypes_def s1_def s2_def s3_def s4_def)
  ultimately show "length (generateAdvancedFlashcards clk shf notes T) = T"
    using heuristicCards_length [of clk shf "sentencesOf notes" "extractKeyTerms notes" T]
    by (simp add: generateAdvancedFlashcards_def Let_def)
qed

theorem heuristic_difficulty_by_archetype_witness:
  "length (generateAdvancedFlashcards (\<lambda>i. 7) (\<lambda>i xs. xs) cellNotes 3) = 3
   \<and> ((card_type (generateAdvancedFlashcards (\<lambda>i. 7) (\<lambda>i xs. xs) cellNotes 3 ! 2) = FillBlank
         \<and> difficulty (generateAdvancedFlashcards (\<lambda>i. 7) (\<lambda>i xs. xs) cellNotes 3 ! 2) = Basic)
      \<or> (card_type (generateAdvancedFlashcards (\<lambda>i. 7) (\<lambda>i xs. xs) cellNotes 3 ! 2) = TrueFalse
         \<and> difficulty (generateAdvancedFlashcards (\<lambda>i. 7) (\<lambda>i xs. xs) cellNotes 3 ! 2) = Basic)
      \<or> (card_type (generateAdvancedFlashcards (\<lambda>i. 7) (\<lambda>i xs. xs) cellNotes 3 ! 2) = Definition
         \<and> difficulty (generateAdvancedFlashcards (\<lambda>i. 7) (\<lambda>i xs. xs) cellNotes 3 ! 2) = Intermediate)
      \<or> (card_type (generateAdvancedFlashcards (\<lambda>i. 7) (\<lambda>i xs. xs) cellNotes 3 ! 2) = MultipleChoice
         \<and> difficulty (generateAdvancedFlashcards (\<lambda>i. 7) (\<lambda>i xs. xs) cellNotes 3 ! 2) = Advanced))"
proof -
  let ?cs = "generateAdvancedFlashcards (\<lambda>i. 7) (\<lambda>i xs. xs) cellNotes 3"
  have len: "length ?cs = 3" by code_simp
  then have "?cs ! 2 \<in> set ?cs" by simp
  with len show ?thesis
    using heuristic_difficulty_by_archetype [of "\<lambda>i. 7" "\<lambda>i xs. xs" cellNotes 3] by blast
qed

theorem generation_at_most_target_witness:
  "\<not> isl (fst (generateFlashcardsWithProgress worldBasicTierOnly shortNotes 1 emptyState))
   \<and> length (projr (fst (generateFlashcardsWithProgress worldBasicTierOnly shortNotes 1 emptyState))) \<le> 1
   \<and> length (generateAdvancedFlashcards (\<lambda>i. 7) (\<lambda>i xs. xs) shortNotes 1) \<le> 1"
proof -
  let ?r = "generateFlashcardsWithProgress worldBasicTierOnly shortNotes 1 emptyState"
  have ok: "\<not> isl (fst ?r)" by code_simp
  then have "?r = (Inr (projr (fst ?r)), snd ?r)"
    by (cases ?r; cases "fst ?r") auto
  with ok show ?thesis
    using generation_at_most_target [of "\<lambda>i. 7" "\<lambda>i xs. xs" shortNotes 1 worldBasicTierOnly emptyState]
    by blast
qed

lemma alpha_sentences:
  "sentencesOf alphaNotes
     = [''Alpha is the first letter of all'', '' Bravo is the second one in line'',
        '' some more plain words come here now'', '' and then even more text follows it'',
        '' last of the short ones is here'']"
  by code_simp

lemma alpha_terms: "extractKeyTerms alphaNotes = [''Alpha'', ''Bravo'', ''Zeta'', ''Iota'']"
  by code_simp

theorem heuristic_count_witness:
  "buildCard (\<lambda>i. 7) (\<lambda>i xs. xs) (sentencesOf alphaNotes) (extractKeyTerms alphaNotes)
     Definition 2 = None
   \<and> length (generateAdvancedFlashcards (\<lambda>i. 7) (\<lambda>i xs. xs) alphaNotes 3) = 3"
proof -
  let ?B = "buildCard (\<lambda>i. 7) (\<lambda>i xs. xs) (sentencesOf alphaNotes) (extractKeyTerms alphaNotes)"
  let ?b = "buildCard (\<lambda>i. 7) (\<lambda>i xs. xs)
     [''Alpha is the first letter of all'', '' Bravo is the second one in line'',
      '' some more plain words come here now'', '' and then even more text follows it'',
      '' last of the short ones is here'']
     [''Alpha'', ''Bravo'', ''Zeta'', ''Iota'']"
  have e: "?b FillBlank 0 \<noteq> None" "?b Definition 1 \<noteq> None" "?b TrueFalse 2 \<noteq> None"
    by code_simp+
  have d2: "?b Definition 2 = None" by code_simp
  have q: "typeCount 3 3 = 1" "typeCount 3 2 = 1" by (simp_all add: typeCount_def)
  have h: "\<forall>i<3.
          (i < typeCount 3 3 \<longrightarrow> ?B FillBlank i \<noteq> None)
        \<and> (typeCount 3 3 \<le> i \<and> i < typeCount 3 3 + typeCount 3 3 \<longrightarrow> ?B Definition i \<noteq> None)
        \<and> (typeCount 3 3 + typeCount 3 3 \<le> i \<and> i < typeCount 3 3 + typeCount 3 3 + typeCount 3 2
             \<longrightarrow> ?B TrueFalse i \<noteq> None)
        \<and> (typeCount 3 3 + typeCount 3 3 + typeCount 3 2 \<le> i \<longrightarrow> ?B MultipleChoice i \<noteq> None)"
  proof (intro allI impI)
    fix i :: nat
    assume "i < 3"
    then consider "i = 0" | "i = 1" | "i = 2" by arith
    then show "(i < typeCount 3 3 \<longrightarrow> ?B FillBlank i \<noteq> None)
        \<and> (typeCount 3 3 \<le> i \<and> i < typeCount 3 3 + typeCount 3 3 \<longrightarrow> ?B Definition i \<noteq> None)
        \<and> (typeCount 3 3 + typeCount 3 3 \<le> i \<and> i < typeCount 3 3 + typeCount 3 3 + typeCount 3 2
             \<longrightarrow> ?B TrueFalse i \<noteq> None)
        \<and> (typeCount 3 3 + typeCount 3 3 + typeCount 3 2 \<le> i \<longrightarrow> ?B MultipleChoice i \<noteq> None)"
      unfolding alpha_sentences alpha_terms q
      by cases (use e in simp_all)
  qed
  have n: "?B Definition 2 = None"
    unfolding alpha_sentences alpha_terms by (rule d2)
  from h have "length (generateAdvancedFlashcards (\<lambda>i. 7) (\<lambda>i xs. xs) alphaNotes 3) = 3"
    using heuristic_count [of "\<lambda>i. 7" "\<lambda>i xs. xs" alphaNotes 3] by blast
  with n show ?thesis by blast
qed

text \<open>
  The claim as it is worded asks only that each archetype's quota be satisfiable by its
  builder. At the notes below, with the target 5 that the estimator gives them, every
  archetype delivers its whole quota when its loop runs alone from the cursor 0, and the
  coordinator returns three cards: the definition and multiple-choice builders are
  invoked at the cursor positions 2 and 3, where the key terms have no sentence.
\<close>

theorem heuristic_count_counterexample:
  "calculateQuestionCount alphaNotes = 5
   \<and> sentencesOf alphaNotes \<noteq> [] \<and> extractKeyTerms alphaNotes \<noteq> []
   \<and> quotaSatisfiable (\<lambda>i. 7) (\<lambda>i xs. xs) (sentencesOf alphaNotes) (extractKeyTerms alphaNotes)
        5 FillBlank 3
   \<and> quotaSatisfiable (\<lambda>i. 7) (\<lambda>i xs. xs) (sentencesOf alphaNotes) (extractKeyTerms alphaNotes)
        5 Definition 3
   \<and> quotaSatisfiable (\<lambda>i. 7) (\<lambda>i xs. xs) (sentencesOf alphaNotes) (extractKeyTerms alphaNotes)
        5 TrueFalse 2
   \<and> quotaSatisfiable (\<lambda>i. 7) (\<lambda>i xs. xs) (sentencesOf alphaNotes) (extractKeyTerms alphaNotes)
        5 MultipleChoice 2
   \<and> map card_type (generateAdvancedFlashcards (\<lambda>i. 7) (\<lambda>i xs. xs) alphaNotes 5)
        = [FillBlank, FillBlank, TrueFalse]"
proof -
  let ?S = "[''Alpha is the first letter of all'', '' Bravo is the second one in line'',
      '' some more plain words come here now'', '' and then even more text follows it'',
      '' last of the short ones is here'']"
  let ?K = "[''Alpha'', ''Bravo'', ''Zeta'', ''Iota'']"
  have c: "calculateQuestionCount alphaNotes = 5" by code_simp
  have q: "quotaSatisfiable (\<lambda>i. 7) (\<lambda>i xs. xs) ?S ?K 5 FillBlank 3"
          "quotaSatisfiable (\<lambda>i. 7) (\<lambda>i xs. xs) ?S ?K 5 Definition 3"
          "quotaSatisfiable (\<lambda>i. 7) (\<lambda>i xs. xs) ?S ?K 5 TrueFalse 2"
          "quotaSatisfiable (\<lambda>i. 7) (\<lambda>i xs. xs) ?S ?K 5 MultipleChoice 2"
    by code_simp+
  have g: "map card_type (take 5 (fst (heuristicCards (\<lambda>i. 7) (\<lambda>i xs. xs) ?S ?K 5)))
             = [FillBlank, FillBlank, TrueFalse]"
    by code_simp
  show ?thesis
    unfolding generateAdvancedFlashcards_def Let_def alpha_sentences alpha_terms
    using c q g by simp
qed

section \<open>Sizing estimator: the step function\<close>






lemma dropWhile_all_last: "dropWhile P cs = [] \<Longrightarrow> cs \<noteq> [] \<Longrightarrow> P (last cs)"
  by (induction cs) (auto split: if_splits)







section \<open>Progress records of the AI tier coordinator\<close>

text \<open>
  What holds of every run that returns: the progress records it writes are ordered by
  \<open>current\<close>, the last one is completed and counts the cards accumulated before the
  truncation, and the returned list has the smaller of that count and the target.
\<close>

lemma progressWrites_kv_set:
  "progressWrites (snd (kv_set w k (VProgress p) st))
     = progressWrites st @ (if kvSetFails w (kvCalls st) then [] else [p])"
  by (simp add: kv_set_def progressWrites_def)

lemma progressWrites_requests [simp]:
  "progressWrites (st\<lparr>requests := r\<rparr>) = progressWrites st"
  by (simp add: progressWrites_def)

lemma tierStep_progressInv:
  assumes "progressInv base acc"
  shows "progressInv base (tierStep w nts T acc tier)"
proof -
  obtain cs st where acc: "acc = (cs, st)" by (cases acc)
  obtain d q where tier: "tier = (d, q)" by (cases tier)
  from assms acc obtain ps where ps: "progressWrites st = base @ ps" "sorted (map current ps)"
    "\<forall>p \<in> set ps. current p \<le> length cs"
    by (auto simp: progressInv_def)
  show ?thesis
  proof (cases "fetchOutcome w d")
    case Throws
    with ps show ?thesis by (auto simp: acc tier progressInv_def Let_def)
  next
    case NotOk
    with ps show ?thesis by (auto simp: acc tier progressInv_def Let_def)
  next
    case (Generated gen)
    let ?cs' = "cs @ parseFlashcards w gen d"
    let ?p = "\<lparr>current = length ?cs', total = T, status = Generating\<rparr>"
    let ?st1 = "st\<lparr>requests := requests st @ [(d, createPromptForDifficulty nts q d)]\<rparr>"
    let ?new = "if kvSetFails w (kvCalls ?st1) then [] else [?p]"
    have r: "tierStep w nts T acc tier = (?cs', snd (kv_set w (progressKey w) (VProgress ?p) ?st1))"
      by (simp add: acc tier Generated Let_def)
    have w1: "progressWrites (snd (tierStep w nts T acc tier)) = base @ (ps @ ?new)"
      unfolding r using ps(1) by (simp add: progressWrites_kv_set)
    have w2: "sorted (map current (ps @ ?new))"
      using ps(2,3) by (auto simp: sorted_append)
    have w3: "\<forall>p \<in> set (ps @ ?new). current p \<le> length (fst (tierStep w nts T acc tier))"
      unfolding r using ps(3) by auto
    from w1 w2 w3 show ?thesis unfolding progressInv_def by blast
  qed
qed

lemma tiers_progressInv:
  "progressInv base acc \<Longrightarrow> progressInv base (foldl (tierStep w nts T) acc ts)"
  by (induction ts arbitrary: acc) (simp_all add: tierStep_progressInv)

lemma progress_sequence:
  assumes run: "generateFlashcardsWithProgress w nts T st = (Inr cards, st')"
  shows "\<exists>ps accumulated.
           progressWrites st' = progressWrites st @ ps
         \<and> sorted (map current ps)
         \<and> ps \<noteq> [] \<and> status (last ps) = Completed \<and> current (last ps) = accumulated
         \<and> length cards = min T accumulated"
proof -
  let ?p0 = "\<lparr>current = 0, total = T, status = Generating\<rparr>"
  obtain b st1 where s1: "kv_set w (progressKey w) (VProgress ?p0) st = (b, st1)"
    by (cases "kv_set w (progressKey w) (VProgress ?p0) st") auto
  with run have b: "b" by (cases b) (auto simp: generateFlashcardsWithProgress_def)
  then have nf: "\<not> kvSetFails w (kvCalls st)" using s1 by (auto simp: kv_set_def split: if_splits)
  have w1: "progressWrites st1 = progressWrites st @ [?p0]"
    using progressWrites_kv_set [of w "progressKey w" ?p0 st] s1 nf by simp
  obtain cs st2 where f: "foldl (tierStep w nts T) ([], st1) (tiers T) = (cs, st2)"
    by (cases "foldl (tierStep w nts T) ([], st1) (tiers T)") auto
  have "progressInv (progressWrites st) ([], st1)"
    unfolding progressInv_def using w1 by (intro exI [of _ "[?p0]"]) simp
  from tiers_progressInv [OF this, of w nts T "tiers T"] f
  obtain ps where ps: "progressWrites st2 = progressWrites st @ ps" "sorted (map current ps)"
    "\<forall>p \<in> set ps. current p \<le> length cs"
    by (auto simp: progressInv_def)
  let ?cs' = "if length cs < T
              then cs @ generateAdvancedFlashcards (\<lambda>i. clock w (Built Primary i))
                          (shuffle w Primary) nts (T - length cs)
              else cs"
  let ?p1 = "\<lparr>current = length ?cs', total = T, status = Completed\<rparr>"
  obtain b3 st3 where s3: "kv_set w (progressKey w) (VProgress ?p1) st2 = (b3, st3)"
    by (cases "kv_set w (progressKey w) (VProgress ?p1) st2") auto
  have g: "generateFlashcardsWithProgress w nts T st
             = (if b3 then (Inr (take T ?cs'), st3) else (Inl StoreError, st3))"
    unfolding generateFlashcardsWithProgress_def s1 using b s3 by (simp add: f Let_def)
  with run have b3: "b3" and res: "cards = take T ?cs'" "st' = st3"
    by (auto split: if_splits)
  from b3 s3 have nf3: "\<not> kvSetFails w (kvCalls st2)"
    by (auto simp: kv_set_def split: if_splits)
  have w3: "progressWrites st3 = progressWrites st @ (ps @ [?p1])"
    using progressWrites_kv_set [of w "progressKey w" ?p1 st2] s3 nf3 ps(1) by simp
  have le: "\<forall>p \<in> set ps. current p \<le> length ?cs'" using ps(3) by auto
  have srt: "sorted (map current (ps @ [?p1]))"
    using ps(2) le by (simp add: sorted_append)
  have len: "length cards = min T (length ?cs')" unfolding res by simp
  show ?thesis
    using w3 srt len unfolding res
    by (intro exI [of _ "ps @ [?p1]"] exI [of _ "length ?cs'"]) simp
qed

text \<open>
  Claim C2 at a run where it fails. The target is 1, the basic tier returns two cards
  and the other tiers fail. The progress records written have \<open>current\<close> 0, 2 and 2, the
  last one with the status completed; the list returned has one card. The sequence does
  not decrease and ends completed, but the last \<open>current\<close> is the number of cards before
  the truncation to the target, not the length of the returned list.
\<close>
theorem final_progress_differs:
  "map (\<lambda>p. (current p, total p, status p))
       (progressWrites (snd (generateFlashcardsWithProgress worldBasicTierOnly shortNotes 1 emptyState)))
     = [(0, 1, Generating), (2, 1, Generating), (2, 1, Completed)]
   \<and> map question (projr (fst (generateFlashcardsWithProgress worldBasicTierOnly shortNotes 1 emptyState)))
     = [''a'']
   \<and> \<not> isl (fst (generateFlashcardsWithProgress worldBasicTierOnly shortNotes 1 emptyState))"
  by code_simp

section \<open>Multiple-choice options\<close>

text \<open>
  Claim C9 at a run where it fails. The notes give the single key term
  \<^verbatim>\<open>Mitochondria\<close>, so there is no other term. The third card of the heuristic run is
  the multiple-choice card, and its options read \<^verbatim>\<open>Mitochondria\<close>,
  \<^verbatim>\<open>undefined\<close>, \<^verbatim>\<open>undefined\<close> and \<^verbatim>\<open>None of the above\<close>: only the last slot has
  the default text.
\<close>
theorem missing_options_print_undefined:
  "extractKeyTerms cellNotes = [''Mitochondria'']
   \<and> map (\<lambda>c. (card_type c, question c)) (generateAdvancedFlashcards (\<lambda>i. 7) (\<lambda>i xs. xs) cellNotes 3) ! 2
       = (MultipleChoice,
          mcQuestion ''Mitochondria makes energy daily''
            [''Mitochondria'', ''undefined'', ''undefined'', ''None of the above''])"
  by code_simp











section \<open>AI failures and the fallback\<close>

lemma kv_set_requests: "requests (snd (kv_set w k v st)) = requests st"
  by (simp add: kv_set_def)

lemma kv_set_calls: "kvCalls (snd (kv_set w k v st)) = kvCalls st + 1"
  by (simp add: kv_set_def)

lemma kv_set_ok: "\<not> kvSetFails w (kvCalls st) \<Longrightarrow> fst (kv_set w k v st)"
  by (simp add: kv_set_def)

lemma tierStep_requests:
  "requests (snd (tierStep w nts T acc tier))
     = requests (snd acc) @ [(fst tier, createPromptForDifficulty nts (snd tier) (fst tier))]"
  by (cases acc; cases tier) (simp add: Let_def kv_set_requests split: fetch_outcome.splits)

lemma tierStep_calls: "kvCalls (snd acc) \<le> kvCalls (snd (tierStep w nts T acc tier))"
  by (cases acc; cases tier) (simp add: Let_def kv_set_calls split: fetch_outcome.splits)

lemma tiers_requests:
  "map fst (requests (snd (foldl (tierStep w nts T) acc (tiers T))))
     = map fst (requests (snd acc)) @ [Basic, Intermediate, Advanced]"
  by (simp add: tiers_def tierStep_requests)

lemma tiers_calls: "kvCalls (snd acc) \<le> kvCalls (snd (foldl (tierStep w nts T) acc (tiers T)))"
proof -
  have "kvCalls (snd acc) \<le> kvCalls (snd (foldl (tierStep w nts T) acc ts))" for ts
  proof (induction ts arbitrary: acc)
    case Nil
    show ?case by simp
  next
    case (Cons t ts)
    have "kvCalls (snd acc) \<le> kvCalls (snd (tierStep w nts T acc t))"
      by (rule tierStep_calls)
    also have "\<dots> \<le> kvCalls (snd (foldl (tierStep w nts T) (tierStep w nts T acc t) ts))"
      by (rule Cons.IH)
    finally show ?case by simp
  qed
  then show ?thesis .
qed

lemma generate_requests:
  assumes "\<not> kvSetFails w (kvCalls st)"
  shows "map fst (requests (snd (generateFlashcardsWithProgress w notes T st)))
           = map fst (requests st) @ [Basic, Intermediate, Advanced]"
proof -
  let ?p0 = "VProgress \<lparr>current = 0, total = T, status = Generating\<rparr>"
  obtain st1 where s1: "kv_set w (progressKey w) ?p0 st = (True, st1)"
    using kv_set_ok [OF assms, of "progressKey w" ?p0] by (cases "kv_set w (progressKey w) ?p0 st") auto
  have r1: "requests st1 = requests st"
    using kv_set_requests [of w "progressKey w" ?p0 st] s1 by simp
  obtain cs st2 where f: "foldl (tierStep w notes T) ([], st1) (tiers T) = (cs, st2)"
    by (cases "foldl (tierStep w notes T) ([], st1) (tiers T)") auto
  have r2: "map fst (requests st2) = map fst (requests st) @ [Basic, Intermediate, Advanced]"
    using tiers_requests [where acc = "([], st1)" and w = w and T = T and nts = "notes"] f r1 by simp
  let ?cs' = "if length cs < T
              then cs @ generateAdvancedFlashcards (\<lambda>i. clock w (Built Primary i))
                          (shuffle w Primary) notes (T - length cs)
              else cs"
  let ?p1 = "VProgress \<lparr>current = length ?cs', total = T, status = Completed\<rparr>"
  obtain b st3 where s3: "kv_set w (progressKey w) ?p1 st2 = (b, st3)"
    by (cases "kv_set w (progressKey w) ?p1 st2") auto
  have r3: "requests st3 = requests st2"
    using kv_set_requests [of w "progressKey w" ?p1 st2] s3 by simp
  have "snd (generateFlashcardsWithProgress w notes T st) = st3"
    unfolding generateFlashcardsWithProgress_def s1 using s3 by (cases b) (simp_all add: f Let_def)
  with r2 r3 show ?thesis by simp
qed

lemma saveLoop_ok:
  "\<forall>n \<ge> kvCalls st. \<not> kvSetFails w n \<Longrightarrow>
   \<exists>saved st'. saveLoop w uid nid ts cs acc st = (Inr saved, st')"
proof (induction cs arbitrary: acc st)
  case Nil
  show ?case by simp
next
  case (Cons c cs)
  let ?v = "VCard (attach uid nid ts c)"
  let ?k = "flashcardKey uid (card_id c)"
  from Cons.prems have "\<not> kvSetFails w (kvCalls st)" by simp
  then obtain st1 where s1: "kv_set w ?k ?v st = (True, st1)"
    using kv_set_ok [of w st ?k ?v] by (cases "kv_set w ?k ?v st") auto
  have "kvCalls st1 = kvCalls st + 1"
    using kv_set_calls [of w ?k ?v st] s1 by simp
  with Cons.prems have "\<forall>n \<ge> kvCalls st1. \<not> kvSetFails w n" by simp
  from Cons.IH [OF this] show ?case
    by (simp add: Let_def s1)
qed

lemma saveFlashcards_ok:
  assumes "\<forall>n \<ge> kvCalls st. \<not> kvSetFails w n"
  shows "\<exists>saved st'. saveFlashcards w ph cs uid notes st = (Inr saved, st')"
proof -
  let ?ts = "clock w (Saved ph)"
  let ?nid = "noteIdOf ?ts"
  let ?k = "noteKey uid ?nid"
  let ?v = "VNote \<lparr>note_id = ?nid, content = notes, note_createdAt = ?ts\<rparr>"
  from assms have "\<not> kvSetFails w (kvCalls st)" by simp
  then obtain st1 where s1: "kv_set w ?k ?v st = (True, st1)"
    using kv_set_ok [of w st ?k ?v] by (cases "kv_set w ?k ?v st") auto
  have "kvCalls st1 = kvCalls st + 1"
    using kv_set_calls [of w ?k ?v st] s1 by simp
  with assms have "\<forall>n \<ge> kvCalls st1. \<not> kvSetFails w n" by simp
  from saveLoop_ok [OF this] show ?thesis
    by (simp add: saveFlashcards_def Let_def s1)
qed

lemma heuristicResponse_ok:
  assumes "\<forall>n \<ge> kvCalls st. \<not> kvSetFails w n"
  shows "\<exists>saved total st'. heuristicResponse w ph notes T uid st = (Ok200 saved total, st')"
proof -
  let ?cs = "generateAdvancedFlashcards (\<lambda>i. clock w (Built ph i)) (shuffle w ph) notes T"
  from saveFlashcards_ok [OF assms, of ph ?cs uid "notes"]
  obtain saved st' where "saveFlashcards w ph ?cs uid notes st = (Inr saved, st')" by blast
  then show ?thesis by (simp add: heuristicResponse_def Let_def)
qed

lemma generate_ok:
  assumes "\<forall>n \<ge> kvCalls st. \<not> kvSetFails w n"
  shows "\<exists>cs st'. generateFlashcardsWithProgress w notes T st = (Inr cs, st')
                  \<and> kvCalls st \<le> kvCalls st'"
proof -
  let ?p0 = "VProgress \<lparr>current = 0, total = T, status = Generating\<rparr>"
  from assms have "\<not> kvSetFails w (kvCalls st)" by simp
  then obtain st1 where s1: "kv_set w (progressKey w) ?p0 st = (True, st1)"
    using kv_set_ok [of w st "progressKey w" ?p0] by (cases "kv_set w (progressKey w) ?p0 st") auto
  have c1: "kvCalls st1 = kvCalls st + 1"
    using kv_set_calls [of w "progressKey w" ?p0 st] s1 by simp
  obtain cs st2 where f: "foldl (tierStep w notes T) ([], st1) (tiers T) = (cs, st2)"
    by (cases "foldl (tierStep w notes T) ([], st1) (tiers T)") auto
  have c2: "kvCalls st1 \<le> kvCalls st2"
    using tiers_calls [where acc = "([], st1)" and w = w and T = T and nts = "notes"] f by simp
  let ?cs' = "if length cs < T
              then cs @ generateAdvancedFlashcards (\<lambda>i. clock w (Built Primary i))
                          (shuffle w Primary) notes (T - length cs)
              else cs"
  let ?p1 = "VProgress \<lparr>current = length ?cs', total = T, status = Completed\<rparr>"
  from assms c1 c2 have "\<not> kvSetFails w (kvCalls st2)" by simp
  then obtain st3 where s3: "kv_set w (progressKey w) ?p1 st2 = (True, st3)"
    using kv_set_ok [of w st2 "progressKey w" ?p1] by (cases "kv_set w (progressKey w) ?p1 st2") auto
  have c3: "kvCalls st3 = kvCalls st2 + 1"
    using kv_set_calls [of w "progressKey w" ?p1 st2] s3 by simp
  have "generateFlashcardsWithProgress w notes T st = (Inr (take T ?cs'), st3)"
    unfolding generateFlashcardsWithProgress_def s1 using s3 by (simp add: f Let_def)
  with c1 c2 c3 show ?thesis by simp
qed

lemma aiResponse_ok:
  assumes "\<forall>n \<ge> kvCalls st. \<not> kvSetFails w n"
  shows "\<exists>saved total st'. aiResponse w notes T uid st = (Ok200 saved total, st')"
proof -
  from generate_ok [OF assms, of "notes" T] obtain cs st1
    where g: "generateFlashcardsWithProgress w notes T st = (Inr cs, st1)"
      and c: "kvCalls st \<le> kvCalls st1" by blast
  from assms c have "\<forall>n \<ge> kvCalls st1. \<not> kvSetFails w n" by simp
  from saveFlashcards_ok [OF this, of Primary cs uid "notes"]
  obtain saved st2 where "saveFlashcards w Primary cs uid notes st1 = (Inr saved, st2)" by blast
  with g show ?thesis by (simp add: aiResponse_def)
qed

text \<open>
  Claim C1, as amended. With an API credential configured and notes that are a
  non-empty string:
  \<^item> once the initial progress record is written, the three tiers are requested in
    order, whatever each tier's outcome;
  \<^item> with a store that accepts every write from now on, the caller receives a
    successful result, whatever each tier's outcome;
  \<^item> when the AI path raises, in generation or while its cards are saved, the result
    of the handler is the result of the heuristic fallback;
  \<^item> the fallback answers successfully when the store accepts its writes;
  \<^item> when the AI path returns and its cards are saved, the caller receives these cards
    and their number;
  \<^item> when the fallback's cards are saved, the fallback answers with these cards and
    their number;
  \<^item> when the AI path raises and a write of the fallback's persistence is rejected, the
    caller receives the generic failure (status 500).
\<close>

theorem ai_failures_fall_back:
  assumes "apiKey w = Some key" and "key \<noteq> []" and "notes \<noteq> []"
  shows "(\<not> kvSetFails w (kvCalls st) \<longrightarrow>
            map fst (requests (snd (generateFlashcardsWithProgress w notes T st)))
              = map fst (requests st) @ [Basic, Intermediate, Advanced])
       \<and> ((\<forall>n \<ge> kvCalls st. \<not> kvSetFails w n) \<longrightarrow>
            (\<exists>saved total st'.
               generateFlashcardsHandler w (Body (JString notes) uid) st = (Ok200 saved total, st')))
       \<and> (\<forall>e st1.
            generateFlashcardsWithProgress w notes (nat (calculateQuestionCount notes)) st = (Inl e, st1)
            \<longrightarrow> generateFlashcardsHandler w (Body (JString notes) uid) st
                  = heuristicResponse w Fallback notes (nat (calculateQuestionCount notes)) uid st1)
       \<and> (\<forall>cs st1 e st2.
            generateFlashcardsWithProgress w notes (nat (calculateQuestionCount notes)) st = (Inr cs, st1)
            \<and> saveFlashcards w Primary cs uid notes st1 = (Inl e, st2)
            \<longrightarrow> generateFlashcardsHandler w (Body (JString notes) uid) st
                  = heuristicResponse w Fallback notes (nat (calculateQuestionCount notes)) uid st2)
       \<and> (\<forall>st1. (\<forall>n \<ge> kvCalls st1. \<not> kvSetFails w n) \<longrightarrow>
            (\<exists>saved total st2.
               heuristicResponse w Fallback notes (nat (calculateQuestionCount notes)) uid st1
                 = (Ok200 saved total, st2)))
       \<and> (\<forall>cs st1 saved st2.
            generateFlashcardsWithProgress w notes (nat (calculateQuestionCount notes)) st = (Inr cs, st1)
            \<and> saveFlashcards w Primary cs uid notes st1 = (Inr saved, st2)
            \<longrightarrow> generateFlashcardsHandler w (Body (JString notes) uid) st
                  = (Ok200 saved (length cs), st2))
       \<and> (\<forall>st1 saved st2.
            saveFlashcards w Fallback
              (generateAdvancedFlashcards (\<lambda>i. clock w (Built Fallback i)) (shuffle w Fallback) notes
                 (nat (calculateQuestionCount notes)))
              uid notes st1 = (Inr saved, st2)
            \<longrightarrow> heuristicResponse w Fallback notes (nat (calculateQuestionCount notes)) uid st1
                  = (Ok200 saved
                       (length (generateAdvancedFlashcards (\<lambda>i. clock w (Built Fallback i))
                                  (shuffle w Fallback) notes (nat (calculateQuestionCount notes)))),
                     st2))
       \<and> (\<forall>e st1 e' st2.
            generateFlashcardsWithProgress w notes (nat (calculateQuestionCount notes)) st = (Inl e, st1)
            \<and> saveFlashcards w Fallback
                (generateAdvancedFlashcards (\<lambda>i. clock w (Built Fallback i)) (shuffle w Fallback) notes
                   (nat (calculateQuestionCount notes)))
                uid notes st1 = (Inl e', st2)
            \<longrightarrow> generateFlashcardsHandler w (Body (JString notes) uid) st
                  = (Err500 ''Failed to generate flashcards'', st2))
       \<and> (\<forall>cs st1 e st2 e' st3.
            generateFlashcardsWithProgress w notes (nat (calculateQuestionCount notes)) st = (Inr cs, st1)
            \<and> saveFlashcards w Primary cs uid notes st1 = (Inl e, st2)
            \<and> saveFlashcards w Fallback
                (generateAdvancedFlashcards (\<lambda>i. clock w (Built Fallback i)) (shuffle w Fallback) notes
                   (nat (calculateQuestionCount notes)))
                uid notes st2 = (Inl e', st3)
            \<longrightarrow> generateFlashcardsHandler w (Body (JString notes) uid) st
                  = (Err500 ''Failed to generate flashcards'', st3))"
proof -
  let ?T = "nat (calculateQuestionCount notes)"
  let ?H = "generateAdvancedFlashcards (\<lambda>i. clock w (Built Fallback i)) (shuffle w Fallback) notes ?T"
  let ?req = "Body (JString notes) uid"
  have h: "generateFlashcardsHandler w ?req st = aiResponse w notes ?T uid st"
    using assms by (simp add: generateFlashcardsHandler_def Let_def)
  have 1: "\<not> kvSetFails w (kvCalls st) \<longrightarrow>
            map fst (requests (snd (generateFlashcardsWithProgress w notes T st)))
              = map fst (requests st) @ [Basic, Intermediate, Advanced]"
    using generate_requests by blast
  have 2: "(\<forall>n \<ge> kvCalls st. \<not> kvSetFails w n) \<longrightarrow>
            (\<exists>saved total st'. generateFlashcardsHandler w ?req st = (Ok200 saved total, st'))"
    unfolding h using aiResponse_ok by blast
  have 3: "\<forall>e st1.
            generateFlashcardsWithProgress w notes ?T st = (Inl e, st1)
            \<longrightarrow> generateFlashcardsHandler w ?req st = heuristicResponse w Fallback notes ?T uid st1"
    unfolding h by (simp add: aiResponse_def)
  have 4: "\<forall>cs st1 e st2.
            generateFlashcardsWithProgress w notes ?T st = (Inr cs, st1)
            \<and> saveFlashcards w Primary cs uid notes st1 = (Inl e, st2)
            \<longrightarrow> generateFlashcardsHandler w ?req st = heuristicResponse w Fallback notes ?T uid st2"
    unfolding h by (simp add: aiResponse_def)
  have 5: "\<forall>st1. (\<forall>n \<ge> kvCalls st1. \<not> kvSetFails w n) \<longrightarrow>
            (\<exists>saved total st2.
               heuristicResponse w Fallback notes ?T uid st1 = (Ok200 saved total, st2))"
    using heuristicResponse_ok by blast
  have 6: "\<forall>cs st1 saved st2.
            generateFlashcardsWithProgress w notes ?T st = (Inr cs, st1)
            \<and> saveFlashcards w Primary cs uid notes st1 = (Inr saved, st2)
            \<longrightarrow> generateFlashcardsHandler w ?req st = (Ok200 saved (length cs), st2)"
    unfolding h by (simp add: aiResponse_def)
  have 7: "\<forall>st1 saved st2.
            saveFlashcards w Fallback ?H uid notes st1 = (Inr saved, st2)
            \<longrightarrow> heuristicResponse w Fallback notes ?T uid st1 = (Ok200 saved (length ?H), st2)"
    by (simp add: heuristicResponse_def Let_def)
  have f: "heuristicResponse w Fallback notes ?T uid s1 = (Err500 ''Failed to generate flashcards'', s2)"
    if "saveFlashcards w Fallback ?H uid notes s1 = (Inl e', s2)" for s1 s2 e'
    using that by (simp add: heuristicResponse_def Let_def)
  have 8: "\<forall>e st1 e' st2.
            generateFlashcardsWithProgress w notes ?T st = (Inl e, st1)
            \<and> saveFlashcards w Fallback ?H uid notes st1 = (Inl e', st2)
            \<longrightarrow> generateFlashcardsHandler w ?req st = (Err500 ''Failed to generate flashcards'', st2)"
    using 3 f by simp
  have 9: "\<forall>cs st1 e st2 e' st3.
            generateFlashcardsWithProgress w notes ?T st = (Inr cs, st1)
            \<and> saveFlashcards w Primary cs uid notes st1 = (Inl e, st2)
            \<and> saveFlashcards w Fallback ?H uid notes st2 = (Inl e', st3)
            \<longrightarrow> generateFlashcardsHandler w ?req st = (Err500 ''Failed to generate flashcards'', st3)"
    using 4 f by (metis (no_types, lifting))
  show ?thesis
    by (rule conjI [OF 1 conjI [OF 2 conjI [OF 3 conjI [OF 4 conjI [OF 5
          conjI [OF 6 conjI [OF 7 conjI [OF 8 9]]]]]]]])
qed

text \<open>
  When the store rejects every write, the AI path raises at its first progress record,
  the fallback cannot save its cards either, and the caller receives the generic
  failure.
\<close>

theorem ai_failures_fall_back_counterexample:
  "apiKey worldStoreDown = Some ''hf_key''
   \<and> isl (fst (generateFlashcardsWithProgress worldStoreDown shortNotes
                  (nat (calculateQuestionCount shortNotes)) emptyState))
   \<and> fst (generateFlashcardsHandler worldStoreDown (Body (JString shortNotes) ''u1'') emptyState)
       = Err500 ''Failed to generate flashcards''"
  by code_simp

theorem ai_failures_fall_back_witness:
  "apiKey worldFirstWriteFails = Some ''hf_key'' \<and> ''hf_key'' \<noteq> [] \<and> shortNotes \<noteq> []
   \<and> \<not> kvSetFails worldBasicTierOnly (kvCalls emptyState)
   \<and> map fst (requests (snd (generateFlashcardsWithProgress worldBasicTierOnly shortNotes 1 emptyState)))
        = [Basic, Intermediate, Advanced]
   \<and> (\<exists>saved total st'.
         generateFlashcardsHandler worldBasicTierOnly (Body (JString shortNotes) ''u1'') emptyState
           = (Ok200 saved total, st'))
   \<and> generateFlashcardsWithProgress worldFirstWriteFails shortNotes
        (nat (calculateQuestionCount shortNotes)) emptyState
        = (Inl StoreError, emptyState\<lparr>kvCalls := 1\<rparr>)
   \<and> (\<exists>saved total st'.
         generateFlashcardsHandler worldFirstWriteFails (Body (JString shortNotes) ''u1'') emptyState
           = (Ok200 saved total, st'))
   \<and> \<not> isl (fst (generateFlashcardsWithProgress worldSaveFails shortNotes
                     (nat (calculateQuestionCount shortNotes)) emptyState))
   \<and> isl (fst (saveFlashcards worldSaveFails Primary
                  (projr (fst (generateFlashcardsWithProgress worldSaveFails shortNotes
                                 (nat (calculateQuestionCount shortNotes)) emptyState)))
                  ''u1'' shortNotes
                  (snd (generateFlashcardsWithProgress worldSaveFails shortNotes
                          (nat (calculateQuestionCount shortNotes)) emptyState))))
   \<and> (\<exists>saved total st'.
         generateFlashcardsHandler worldSaveFails (Body (JString shortNotes) ''u1'') emptyState
           = (Ok200 saved total, st'))
   \<and> isl (fst (generateFlashcardsWithProgress worldStoreDown shortNotes
                  (nat (calculateQuestionCount shortNotes)) emptyState))
   \<and> fst (generateFlashcardsHandler worldStoreDown (Body (JString shortNotes) ''u1'') emptyState)
        = Err500 ''Failed to generate flashcards''
   \<and> \<not> isl (fst (generateFlashcardsWithProgress worldSaveDown shortNotes
                     (nat (calculateQuestionCount shortNotes)) emptyState))
   \<and> fst (generateFlashcardsHandler worldSaveDown (Body (JString shortNotes) ''u1'') emptyState)
        = Err500 ''Failed to generate flashcards''"
proof -
  let ?T = "nat (calculateQuestionCount shortNotes)"
  let ?req = "Body (JString shortNotes) ''u1''"
  have k1: "apiKey worldBasicTierOnly = Some ''hf_key''" by (simp add: worldBasicTierOnly_def)
  have k2: "apiKey worldFirstWriteFails = Some ''hf_key''"
    by (simp add: worldFirstWriteFails_def worldBasicTierOnly_def)
  have k3: "apiKey worldSaveFails = Some ''hf_key''"
    by (simp add: worldSaveFails_def worldBasicTierOnly_def)
  have k4: "apiKey worldStoreDown = Some ''hf_key''"
    by (simp add: worldStoreDown_def worldBasicTierOnly_def)
  have k5: "apiKey worldSaveDown = Some ''hf_key''"
    by (simp add: worldSaveDown_def worldBasicTierOnly_def)
  have ne: "''hf_key'' \<noteq> []" "shortNotes \<noteq> []" by (simp_all add: shortNotes_def)
  have r1: "\<forall>n \<ge> kvCalls emptyState. \<not> kvSetFails worldBasicTierOnly n"
    by (simp add: worldBasicTierOnly_def)
  then have r1': "\<not> kvSetFails worldBasicTierOnly (kvCalls emptyState)" by simp
  note t1 = ai_failures_fall_back [OF k1 ne, of emptyState 1 "''u1''"]
  have a1: "map fst (requests (snd (generateFlashcardsWithProgress worldBasicTierOnly shortNotes 1 emptyState)))
        = [Basic, Intermediate, Advanced]"
    using t1 r1' by (simp add: emptyState_def)
  have a2: "\<exists>saved total st'.
         generateFlashcardsHandler worldBasicTierOnly ?req emptyState = (Ok200 saved total, st')"
    using t1 r1 by blast
  have g2: "generateFlashcardsWithProgress worldFirstWriteFails shortNotes ?T emptyState
              = (Inl StoreError, emptyState\<lparr>kvCalls := 1\<rparr>)"
    by code_simp
  have r2: "\<forall>n \<ge> kvCalls (emptyState\<lparr>kvCalls := 1\<rparr>). \<not> kvSetFails worldFirstWriteFails n"
    by (simp add: worldFirstWriteFails_def emptyState_def)
  note t2 = ai_failures_fall_back [OF k2 ne, of emptyState 1 "''u1''"]
  have b2: "\<exists>saved total st'.
         generateFlashcardsHandler worldFirstWriteFails ?req emptyState = (Ok200 saved total, st')"
    using t2 g2 r2 by metis
  let ?g3 = "generateFlashcardsWithProgress worldSaveFails shortNotes ?T emptyState"
  have g3: "\<not> isl (fst ?g3)" by code_simp
  then have g3': "?g3 = (Inr (projr (fst ?g3)), snd ?g3)"
    by (cases ?g3; cases "fst ?g3") auto
  let ?s3 = "saveFlashcards worldSaveFails Primary (projr (fst ?g3)) ''u1'' shortNotes (snd ?g3)"
  have s3: "isl (fst ?s3)" by code_simp
  then have s3': "?s3 = (Inl (projl (fst ?s3)), snd ?s3)"
    by (cases ?s3; cases "fst ?s3") auto
  have c3: "kvCalls (snd ?s3) = 4" by code_simp
  have r3: "\<forall>n \<ge> kvCalls (snd ?s3). \<not> kvSetFails worldSaveFails n"
    unfolding c3 by (simp add: worldSaveFails_def)
  note t3 = ai_failures_fall_back [OF k3 ne, of emptyState 1 "''u1''"]
  have b3: "\<exists>saved total st'.
         generateFlashcardsHandler worldSaveFails ?req emptyState = (Ok200 saved total, st')"
    using t3 g3' s3' r3 by metis
  let ?g4 = "generateFlashcardsWithProgress worldStoreDown shortNotes ?T emptyState"
  let ?H4 = "generateAdvancedFlashcards (\<lambda>i. clock worldStoreDown (Built Fallback i))
               (shuffle worldStoreDown Fallback) shortNotes ?T"
  have g4: "isl (fst ?g4)" by code_simp
  then have g4': "?g4 = (Inl (projl (fst ?g4)), snd ?g4)"
    by (cases ?g4; cases "fst ?g4") auto
  let ?s4 = "saveFlashcards worldStoreDown Fallback ?H4 ''u1'' shortNotes (snd ?g4)"
  have s4: "isl (fst ?s4)" by code_simp
  then have s4': "?s4 = (Inl (projl (fst ?s4)), snd ?s4)"
    by (cases ?s4; cases "fst ?s4") auto
  note t4 = ai_failures_fall_back [OF k4 ne, of emptyState 1 "''u1''"]
  have b4: "generateFlashcardsHandler worldStoreDown ?req emptyState
              = (Err500 ''Failed to generate flashcards'', snd ?s4)"
    using t4 g4' s4' by metis
  let ?g5 = "generateFlashcardsWithProgress worldSaveDown shortNotes ?T emptyState"
  let ?H5 = "generateAdvancedFlashcards (\<lambda>i. clock worldSaveDown (Built Fallback i))
               (shuffle worldSaveDown Fallback) shortNotes ?T"
  have g5: "\<not> isl (fst ?g5)" by code_simp
  then have g5': "?g5 = (Inr (projr (fst ?g5)), snd ?g5)"
    by (cases ?g5; cases "fst ?g5") auto
  let ?p5 = "saveFlashcards worldSaveDown Primary (projr (fst ?g5)) ''u1'' shortNotes (snd ?g5)"
  have p5: "isl (fst ?p5)" by code_simp
  then have p5': "?p5 = (Inl (projl (fst ?p5)), snd ?p5)"
    by (cases ?p5; cases "fst ?p5") auto
  let ?s5 = "saveFlashcards worldSaveDown Fallback ?H5 ''u1'' shortNotes (snd ?p5)"
  have s5: "isl (fst ?s5)" by code_simp
  then have s5': "?s5 = (Inl (projl (fst ?s5)), snd ?s5)"
    by (cases ?s5; cases "fst ?s5") auto
  note t5 = ai_failures_fall_back [OF k5 ne, of emptyState 1 "''u1''"]
  have b5: "generateFlashcardsHandler worldSaveDown ?req emptyState
              = (Err500 ''Failed to generate flashcards'', snd ?s5)"
    using t5 g5' p5' s5' by metis
  have e4: "fst (generateFlashcardsHandler worldStoreDown ?req emptyState)
              = Err500 ''Failed to generate flashcards''"
    unfolding b4 by simp
  have e5: "fst (generateFlashcardsHandler worldSaveDown ?req emptyState)
              = Err500 ''Failed to generate flashcards''"
    unfolding b5 by simp
  show ?thesis
    using k2 ne r1' a1 a2 g2 b2 g3 s3 b3 g4 e4 g5 e5 by (intro conjI)
qed

section \<open>Fill-in-blank builder\<close>

lemma replaceFirst_at:
  "firstIndexOf pat s = Some n \<Longrightarrow>
   replaceFirst pat rep s = take n s @ rep @ drop (n + length pat) s"
proof (induction s arbitrary: n)
  case Nil
  then show ?case by (simp split: if_splits)
next
  case (Cons c cs)
  show ?case
  proof (cases "take (length pat) (c # cs) = pat")
    case True
    with Cons.prems show ?thesis by simp
  next
    case False
    with Cons.prems obtain m where m: "firstIndexOf pat cs = Some m" "n = Suc m"
      by auto
    from Cons.IH [OF m(1)] False m(2) show ?thesis by simp
  qed
qed

lemma splitChar_nonempty: "splitChar d s \<noteq> []"
  by (induction s) (auto split: list.splits)

lemma joinSpace_Cons_char: "joinSpace ((c # w) # ws) = c # joinSpace (w # ws)"
  by (cases ws) simp_all

lemma joinSpace_Nil_Cons: "ws \<noteq> [] \<Longrightarrow> joinSpace ([] # ws) = CHR '' '' # joinSpace ws"
  by (cases ws) simp_all

lemma joinSpace_splitChar: "joinSpace (splitChar CHR '' '' s) = s"
proof (induction s)
  case Nil
  show ?case by simp
next
  case (Cons c cs)
  show ?case
  proof (cases "c = CHR '' ''")
    case True
    then show ?thesis
      using Cons.IH by (simp add: joinSpace_Nil_Cons splitChar_nonempty)
  next
    case False
    obtain w ws where sp: "splitChar CHR '' '' cs = w # ws"
      using splitChar_nonempty [of "CHR '' ''" cs] by (cases "splitChar CHR '' '' cs") auto
    with False Cons.IH show ?thesis
      by (simp add: joinSpace_Cons_char)
  qed
qed

lemma joinSpace_update:
  "k < length ws \<Longrightarrow>
   joinSpace (ws[k := b])
     = take (wordOffset ws k) (joinSpace ws) @ b
       @ drop (wordOffset ws k + length (ws ! k)) (joinSpace ws)"
proof (induction ws arbitrary: k rule: joinSpace.induct)
  case 1
  then show ?case by simp
next
  case (2 w)
  then show ?case by (simp add: wordOffset_def)
next
  case (3 w v ws)
  show ?case
  proof (cases k)
    case 0
    then show ?thesis by (simp add: wordOffset_def)
  next
    case (Suc j)
    with "3.prems" have j: "j < length (v # ws)" by simp
    have off: "wordOffset (w # v # ws) (Suc j) = Suc (length w) + wordOffset (v # ws) j"
      by (simp add: wordOffset_def)
    obtain x xs where upd: "(v # ws)[j := b] = x # xs"
      by (cases j) auto
    have "joinSpace ((w # v # ws)[k := b]) = w @ '' '' @ joinSpace ((v # ws)[j := b])"
      using Suc upd by simp
    also have "\<dots> = w @ '' '' @ (take (wordOffset (v # ws) j) (joinSpace (v # ws)) @ b
                 @ drop (wordOffset (v # ws) j + length ((v # ws) ! j)) (joinSpace (v # ws)))"
      using "3.IH" [OF j] by simp
    also have "\<dots> = take (wordOffset (w # v # ws) k) (joinSpace (w # v # ws)) @ b
                 @ drop (wordOffset (w # v # ws) k + length ((w # v # ws) ! k)) (joinSpace (w # v # ws))"
      using Suc off by simp
    finally show ?thesis .
  qed
qed

lemma includesJS_append: "includesJS (a @ t @ b) t"
proof (induction a)
  case Nil
  show ?case
  proof (cases "t @ b")
    case Nil
    then show ?thesis by simp
  next
    case (Cons y ys)
    then have "take (length t) (y # ys) = t" by (metis append_eq_conv_conj)
    then show ?thesis using Cons by simp
  qed
next
  case (Cons x a)
  then show ?case by simp
qed

lemma includesJS_word: "k < length ws \<Longrightarrow> includesJS (joinSpace ws) (ws ! k)"
proof -
  assume k: "k < length ws"
  from joinSpace_update [OF k, of "ws ! k"]
  have "joinSpace ws = take (wordOffset ws k) (joinSpace ws) @ ws ! k
       @ drop (wordOffset ws k + length (ws ! k)) (joinSpace ws)"
    by simp
  then show ?thesis using includesJS_append by metis
qed


lemma stripNonWord_id: "list_all isWordChar w \<Longrightarrow> stripNonWord w = w"
  by (induction w) (auto simp: stripNonWord_def)

lemma last_dropWhile_same: "dropWhile P cs \<noteq> [] \<Longrightarrow> last (dropWhile P cs) = last cs"
  by (induction cs) (auto split: if_splits)

lemma trim_ends:
  assumes "trim s \<noteq> []"
  shows "hd (trim s) \<noteq> CHR '' '' \<and> last (trim s) \<noteq> CHR '' ''"
proof -
  let ?a = "dropWhile isSpaceJS s"
  let ?b = "dropWhile isSpaceJS (rev ?a)"
  have t: "trim s = rev ?b" by (simp add: trim_def)
  with assms have b: "?b \<noteq> []" by simp
  have a: "?a \<noteq> []"
  proof
    assume e: "?a = []"
    have "?b = []" unfolding e by simp
    with b show False by contradiction
  qed
  have sp: "isSpaceJS CHR '' ''" by (simp add: isSpaceJS_def)
  have "last (trim s) = hd ?b" unfolding t using b by (simp add: last_rev)
  moreover have "\<not> isSpaceJS (hd ?b)" using b by (rule hd_dropWhile)
  ultimately have l: "last (trim s) \<noteq> CHR '' ''" using sp by auto
  have "hd (trim s) = last ?b" unfolding t using b by (simp add: hd_rev)
  also have "\<dots> = last (rev ?a)" using b by (rule last_dropWhile_same)
  also have "\<dots> = hd ?a" using a by (simp add: last_rev)
  finally have "hd (trim s) = hd ?a" .
  moreover have "\<not> isSpaceJS (hd ?a)" using a by (rule hd_dropWhile)
  ultimately have "hd (trim s) \<noteq> CHR '' ''" using sp by auto
  with l show ?thesis by simp
qed

lemma splitChar_spaceWords_gen:
  "s \<noteq> [] \<Longrightarrow> last s \<noteq> CHR '' '' \<Longrightarrow> \<not> adjacentSpaces s \<Longrightarrow>
   splitChar CHR '' '' s = (if hd s = CHR '' '' then [] # spaceWords s else spaceWords s)"
proof (induction s rule: spaceWords.induct)
  case 1
  then show ?case by simp
next
  case (2 c)
  then show ?case by simp
next
  case (3 c d cs)
  have la: "last (d # cs) \<noteq> CHR '' ''" using "3.prems"(2) by simp
  have ad: "\<not> adjacentSpaces (d # cs)" using "3.prems"(3) by simp
  show ?case
  proof (cases "c = CHR '' ''")
    case True
    with "3.prems"(3) have d: "d \<noteq> CHR '' ''" by auto
    have "splitChar CHR '' '' (d # cs) = spaceWords (d # cs)"
      using "3.IH"(1) [OF True _ la ad] d by simp
    then show ?thesis using True by simp
  next
    case False
    note c = False
    show ?thesis
    proof (cases "d = CHR '' ''")
      case True
      have "splitChar CHR '' '' (d # cs) = [] # spaceWords (d # cs)"
        using "3.IH"(2) [OF c True _ la ad] True by simp
      then show ?thesis using c True by simp
    next
      case False
      have "splitChar CHR '' '' (d # cs) = spaceWords (d # cs)"
        using "3.IH"(3) [OF c False _ la ad] False by simp
      then show ?thesis using c False by simp
    qed
  qed
qed

lemma splitChar_trimmed:
  assumes "\<not> adjacentSpaces (trim s)" and "trim s \<noteq> []"
  shows "splitChar CHR '' '' (trim s) = spaceWords (trim s)"
  using splitChar_spaceWords_gen [OF assms(2) _ assms(1)] trim_ends [OF assms(2)] by simp

text \<open>
  Claim C6, as amended. The builder returns no card when the sentence list is empty.
  For a selected sentence, trimmed, in which no two spaces stand next to each other: it
  returns no card when the sentence has at most 5 words, and for a sentence with more
  words it returns a card whose answer is the word at the middle index without its
  non-word characters. When the text of that word does not occur earlier in the
  sentence than the word itself, the question is the fixed prefix followed by the
  sentence with the word at the middle index replaced by the blank marker. When the
  word has word characters only, the answer is the word, a substring of the sentence.
  Nothing is said of a sentence with two adjacent spaces.
\<close>

theorem fill_in_blank_builder:
  "(sentences = [] \<longrightarrow> generateFillInBlankCard sentences index now = None)
   \<and> (sentences \<noteq> [] \<and> \<not> adjacentSpaces (selectedSentence sentences index)
        \<and> length (spaceWords (selectedSentence sentences index)) \<le> 5
        \<longrightarrow> generateFillInBlankCard sentences index now = None)
   \<and> (sentences \<noteq> [] \<and> \<not> adjacentSpaces (selectedSentence sentences index)
        \<and> length (spaceWords (selectedSentence sentences index)) > 5
        \<longrightarrow> (\<exists>c. generateFillInBlankCard sentences index now = Some c
               \<and> answer c = stripNonWord (spaceWords (selectedSentence sentences index)
                    ! (length (spaceWords (selectedSentence sentences index)) div 2))
               \<and> (firstIndexOf (spaceWords (selectedSentence sentences index)
                       ! (length (spaceWords (selectedSentence sentences index)) div 2))
                     (selectedSentence sentences index)
                     = Some (wordOffset (spaceWords (selectedSentence sentences index))
                               (length (spaceWords (selectedSentence sentences index)) div 2))
                   \<longrightarrow> question c = ''Fill in the blank: ''
                         @ joinSpace ((spaceWords (selectedSentence sentences index))
                             [length (spaceWords (selectedSentence sentences index)) div 2
                                := ''______'']))
               \<and> (list_all isWordChar (spaceWords (selectedSentence sentences index)
                       ! (length (spaceWords (selectedSentence sentences index)) div 2))
                   \<longrightarrow> answer c = spaceWords (selectedSentence sentences index)
                          ! (length (spaceWords (selectedSentence sentences index)) div 2)
                       \<and> includesJS (selectedSentence sentences index) (answer c))))"
proof (intro conjI impI)
  assume "sentences = []"
  then show "generateFillInBlankCard sentences index now = None"
    by (simp add: generateFillInBlankCard_def)
next
  let ?s = "selectedSentence sentences index"
  assume a: "sentences \<noteq> [] \<and> \<not> adjacentSpaces ?s \<and> length (spaceWords ?s) \<le> 5"
  have "length (splitChar CHR '' '' ?s) \<le> 5"
  proof (cases "?s = []")
    case True
    then show ?thesis by simp
  next
    case False
    then have "splitChar CHR '' '' ?s = spaceWords ?s"
      using a splitChar_trimmed [of "sentences ! (index mod length sentences)"]
      by (simp add: selectedSentence_def)
    with a show ?thesis by simp
  qed
  with a show "generateFillInBlankCard sentences index now = None"
    by (simp add: generateFillInBlankCard_def selectedSentence_def Let_def)
next
  let ?s = "selectedSentence sentences index"
  let ?ws = "spaceWords ?s"
  let ?k = "length ?ws div 2"
  let ?c = "\<lparr>card_id = cardId now index ''fill'',
             question = ''Fill in the blank: '' @ replaceFirst (?ws ! ?k) ''______'' ?s,
             answer = stripNonWord (?ws ! ?k), difficulty = Basic, card_type = FillBlank\<rparr>"
  assume a: "sentences \<noteq> [] \<and> \<not> adjacentSpaces ?s \<and> length ?ws > 5"
  then have k: "?k < length ?ws" by arith
  from a have ne: "?s \<noteq> []" by auto
  have sp: "splitChar CHR '' '' ?s = ?ws"
    using a ne splitChar_trimmed [of "sentences ! (index mod length sentences)"]
    by (simp add: selectedSentence_def)
  have js: "joinSpace ?ws = ?s"
    unfolding sp [symmetric] by (rule joinSpace_splitChar)
  have c: "generateFillInBlankCard sentences index now = Some ?c"
    using a sp
    by (simp add: generateFillInBlankCard_def selectedSentence_def Let_def)
  have q: "question ?c = ''Fill in the blank: '' @ joinSpace (?ws[?k := ''______''])"
    if "firstIndexOf (?ws ! ?k) ?s = Some (wordOffset ?ws ?k)"
    using replaceFirst_at [OF that, of "''______''"] joinSpace_update [OF k, of "''______''"]
    by (simp only: js flashcard.simps)
  have w: "answer ?c = ?ws ! ?k \<and> includesJS ?s (answer ?c)"
    if "list_all isWordChar (?ws ! ?k)"
    using stripNonWord_id [OF that] includesJS_word [OF k] by (simp add: js)
  show "\<exists>c. generateFillInBlankCard sentences index now = Some c
          \<and> answer c = stripNonWord (?ws ! ?k)
          \<and> (firstIndexOf (?ws ! ?k) ?s = Some (wordOffset ?ws ?k)
               \<longrightarrow> question c = ''Fill in the blank: '' @ joinSpace (?ws[?k := ''______'']))
          \<and> (list_all isWordChar (?ws ! ?k)
               \<longrightarrow> answer c = ?ws ! ?k \<and> includesJS ?s (answer c))"
  proof (intro exI [of _ ?c] conjI impI)
    show "generateFillInBlankCard sentences index now = Some ?c" by (rule c)
  next
    show "answer ?c = stripNonWord (?ws ! ?k)" by simp
  next
    assume "firstIndexOf (?ws ! ?k) ?s = Some (wordOffset ?ws ?k)"
    then show "question ?c = ''Fill in the blank: '' @ joinSpace (?ws[?k := ''______''])"
      by (rule q)
  next
    assume "list_all isWordChar (?ws ! ?k)"
    then show "answer ?c = ?ws ! ?k" using w by blast
  next
    assume "list_all isWordChar (?ws ! ?k)"
    then show "includesJS ?s (answer ?c)" using w by blast
  qed
qed

text \<open>
  The claim as it is worded fails at two qualifying sentences of seven words: the
  answer \<^verbatim>\<open>its\<close>, from the word \<^verbatim>\<open>it's\<close>, is not a substring of its sentence, and
  the answer \<^verbatim>\<open>in\<close> occurs in its question, within the prefix
  \<^verbatim>\<open>Fill in the blank\<close>.
\<close>

theorem fill_in_blank_builder_counterexample:
  "generateFillInBlankCard [''we know that it's in the box''] 0 7 \<noteq> None
   \<and> length (spaceWords ''we know that it's in the box'') = 7
   \<and> \<not> includesJS ''we know that it's in the box''
          (answer (the (generateFillInBlankCard [''we know that it's in the box''] 0 7)))
   \<and> generateFillInBlankCard [''the cat sat in the big hat''] 0 7 \<noteq> None
   \<and> length (spaceWords ''the cat sat in the big hat'') = 7
   \<and> includesJS (question (the (generateFillInBlankCard [''the cat sat in the big hat''] 0 7)))
        (answer (the (generateFillInBlankCard [''the cat sat in the big hat''] 0 7)))"
  by code_simp

theorem fill_in_blank_builder_witness:
  "generateFillInBlankCard [] 0 7 = None
   \<and> \<not> adjacentSpaces (selectedSentence [''too short here now''] 0)
   \<and> length (spaceWords (selectedSentence [''too short here now''] 0)) = 4
   \<and> generateFillInBlankCard [''too short here now''] 0 7 = None
   \<and> \<not> adjacentSpaces (selectedSentence [catSentence] 0)
   \<and> length (spaceWords (selectedSentence [catSentence] 0)) = 7
   \<and> spaceWords (selectedSentence [catSentence] 0) ! 3 = ''in''
   \<and> firstIndexOf (spaceWords (selectedSentence [catSentence] 0) ! 3)
         (selectedSentence [catSentence] 0)
       = Some (wordOffset (spaceWords (selectedSentence [catSentence] 0)) 3)
   \<and> list_all isWordChar (spaceWords (selectedSentence [catSentence] 0) ! 3)
   \<and> (\<exists>c. generateFillInBlankCard [catSentence] 0 7 = Some c
          \<and> answer c = spaceWords (selectedSentence [catSentence] 0) ! 3
          \<and> question c = ''Fill in the blank: ''
                @ joinSpace ((spaceWords (selectedSentence [catSentence] 0))[3 := ''______''])
          \<and> includesJS (selectedSentence [catSentence] 0) (answer c))"
proof -
  let ?t = "selectedSentence [''too short here now''] 0"
  let ?s = "selectedSentence [catSentence] 0"
  let ?ws = "spaceWords ?s"
  have ta: "\<not> adjacentSpaces ?t" by code_simp
  have tl: "length (spaceWords ?t) = 4" by code_simp
  have sa: "\<not> adjacentSpaces ?s" by code_simp
  have l: "length ?ws = 7" by code_simp
  have m: "?ws ! 3 = ''in''" by code_simp
  have f: "firstIndexOf (?ws ! 3) ?s = Some (wordOffset ?ws 3)" by code_simp
  have a: "list_all isWordChar (?ws ! 3)" by code_simp
  have k: "length ?ws div 2 = 3" unfolding l by simp
  have l5: "length ?ws > 5" unfolding l by simp
  have tl5: "length (spaceWords ?t) \<le> 5" unfolding tl by simp
  have n: "[''too short here now''] \<noteq> []" "[catSentence] \<noteq> []" by simp_all
  from fill_in_blank_builder [of "[]" 0 7]
  have 1: "generateFillInBlankCard [] 0 7 = None" by blast
  from fill_in_blank_builder [of "[''too short here now'']" 0 7] n(1) ta tl5
  have 2: "generateFillInBlankCard [''too short here now''] 0 7 = None" by blast
  from fill_in_blank_builder [of "[catSentence]" 0 7, unfolded k] n(2) sa l5 f a
  have 3: "\<exists>c. generateFillInBlankCard [catSentence] 0 7 = Some c
          \<and> answer c = ?ws ! 3
          \<and> question c = ''Fill in the blank: '' @ joinSpace (?ws[3 := ''______''])
          \<and> includesJS ?s (answer c)"
    by blast
  show ?thesis
    using 1 ta tl 2 sa l m f a 3 by (intro conjI)
qed

end
